theory Spec2Isabelle
  imports Complex_Main "HOL-Library.Word" "HOL-Library.Signed_Division" "HOL-Library.Multiset"
begin

section \<open>Shared data\<close>

text \<open>
  A Go \<^verbatim>\<open>error\<close> value is represented by its message; \<^verbatim>\<open>nil\<close> is \<open>None\<close>
  of \<open>error option\<close>.
\<close>

type_synonym error = string

text \<open>
  A \<^verbatim>\<open>context.Context\<close>: an identity and the span it carries, if any
  (what \<^verbatim>\<open>trace.SpanFromContext\<close> reads). A span is identified by its name.
\<close>

datatype Ctx = Ctx (ctx_id: nat) (ctx_span: "string option")

text \<open>The fields of \<^verbatim>\<open>kgo.Record\<close>; int32 and int64 are machine words.\<close>

record kgo_Record =
  Topic :: string
  Partition :: "32 word"
  Offset :: "64 word"
  Key :: "8 word list"
  Value :: "8 word list"
  Headers :: "(string \<times> 8 word list) list"
  Context :: Ctx

text \<open>
  \<^verbatim>\<open>map[string][]int32\<close>, the argument of the rebalance callbacks, as the list of
  its entries; the empty map is the empty list.
\<close>

type_synonym partitions = "(string \<times> 32 word list) list"

subsection \<open>The zap logger\<close>

text \<open>
  Every call of the sugared logger is one entry: its level, its message (for the
  \<^verbatim>\<open>...f\<close> variants the formatted message) and the key/value pairs of the
  \<^verbatim>\<open>...w\<close> variants.
\<close>

datatype level = DebugLevel | InfoLevel | WarnLevel | ErrorLevel | FatalLevel

datatype log_value =
    StringV string
  | Int32V "32 word"
  | Int64V "64 word"
  | ErrorV error
  | PartitionsV partitions

datatype log_entry = Log (lvl: level) (msg: string) (fields: "(string \<times> log_value) list")

section \<open>Package health: the readiness tracker\<close>

text \<open>\<^verbatim>\<open>type Check func() error\<close>\<close>

type_synonym Check = "unit \<Rightarrow> error option"

text \<open>
  \<^verbatim>\<open>Checker\<close>. Every method holds the mutex for its whole body, so each method
  is one atomic step on the two fields.
\<close>

record Checker =
  ready :: bool
  readinessChecks :: "string \<rightharpoonup> Check"

text \<open>\<^verbatim>\<open>NewChecker\<close> sets only the map; \<^verbatim>\<open>ready\<close> has Go's zero value.\<close>

definition NewChecker :: Checker where
  "NewChecker = \<lparr>ready = False, readinessChecks = Map.empty\<rparr>"

definition AddReadinessCheck :: "string \<Rightarrow> Check \<Rightarrow> Checker \<Rightarrow> Checker" where
  "AddReadinessCheck name check c = c\<lparr>readinessChecks := (readinessChecks c)(name \<mapsto> check)\<rparr>"

definition IsReady :: "Checker \<Rightarrow> bool" where
  "IsReady c = ready c"

definition SetReady :: "bool \<Rightarrow> Checker \<Rightarrow> Checker" where
  "SetReady r c = c\<lparr>ready := r\<rparr>"

subsection \<open>The response writer\<close>

text \<open>
  What a handler leaves in its \<^verbatim>\<open>http.ResponseWriter\<close>: the status code, once
  the header is written, and the body. \<^verbatim>\<open>WriteHeader\<close> has no effect after the
  first call; \<^verbatim>\<open>Write\<close> writes the header with 200 when none was written.
  \<^verbatim>\<open>http.Error\<close> writes the code and the message followed by a newline (the
  header fields it sets are not modelled).
\<close>

record ResponseWriter =
  status :: "nat option"
  body :: string

definition NewRecorder :: ResponseWriter where
  "NewRecorder = \<lparr>status = None, body = []\<rparr>"

definition StatusOK :: nat where
  "StatusOK = 200"

definition StatusServiceUnavailable :: nat where
  "StatusServiceUnavailable = 503"

definition WriteHeader :: "nat \<Rightarrow> ResponseWriter \<Rightarrow> ResponseWriter" where
  "WriteHeader code w = (if status w = None then w\<lparr>status := Some code\<rparr> else w)"

definition Write :: "string \<Rightarrow> ResponseWriter \<Rightarrow> ResponseWriter" where
  "Write bs w = (let w' = WriteHeader StatusOK w in w'\<lparr>body := body w' @ bs\<rparr>)"

definition http_Error :: "ResponseWriter \<Rightarrow> string \<Rightarrow> nat \<Rightarrow> ResponseWriter" where
  "http_Error w err code = Write (err @ [CHR 0x0A]) (WriteHeader code w)"

subsection \<open>The probes\<close>

definition LivenessProbe :: "Checker \<Rightarrow> ResponseWriter \<Rightarrow> 'r \<Rightarrow> ResponseWriter" where
  "LivenessProbe c w r = Write ''ok'' (WriteHeader StatusOK w)"

text \<open>
  \<^verbatim>\<open>for name, check := range c.readinessChecks\<close>: Go visits every key of the map
  once, in an order it does not specify. The order is a parameter of the model:
  \<open>range_order m order\<close> says that \<open>order\<close> is one of the orders Go may choose.
\<close>

definition range_order :: "('k \<rightharpoonup> 'v) \<Rightarrow> 'k list \<Rightarrow> bool" where
  "range_order m order \<longleftrightarrow> distinct order \<and> set order = dom m"

definition range_entries :: "('k \<rightharpoonup> 'v) \<Rightarrow> 'k list \<Rightarrow> ('k \<times> 'v) list" where
  "range_entries m order = List.map_filter (\<lambda>k. map_option (Pair k) (m k)) order"

text \<open>
  The body of the loop: the first check that returns an error answers 503 and returns
  (\<open>Some\<close>); \<open>None\<close> when the loop runs to its end.
\<close>

fun readiness_loop :: "(string \<times> Check) list \<Rightarrow> ResponseWriter \<Rightarrow> ResponseWriter option" where
  "readiness_loop [] w = None"
| "readiness_loop ((name, check) # rest) w =
     (case check () of
        Some err \<Rightarrow>
          Some (http_Error w (name @ '' is not ready: '' @ err) StatusServiceUnavailable)
      | None \<Rightarrow> readiness_loop rest w)"

definition ReadinessProbe ::
  "Checker \<Rightarrow> string list \<Rightarrow> ResponseWriter \<Rightarrow> 'r \<Rightarrow> ResponseWriter" where
  "ReadinessProbe c order w r =
     (if \<not> ready c then
        http_Error w ''consumer not ready (no partitions assigned)'' StatusServiceUnavailable
      else
        (case readiness_loop (range_entries (readinessChecks c) order) w of
           Some w' \<Rightarrow> w'
         | None \<Rightarrow> Write ''ok'' (WriteHeader StatusOK w)))"

section \<open>Package kgo: the rebalance callbacks\<close>

text \<open>
  The three closures that \<^verbatim>\<open>BuildKgoOptions\<close> registers. Each logs through
  \<^verbatim>\<open>zap.S()\<close> and writes the readiness flag of the checker it captured; the
  context and the client arguments are unused.
\<close>

definition OnPartitionsAssigned :: "partitions \<Rightarrow> Checker \<Rightarrow> log_entry list \<times> Checker" where
  "OnPartitionsAssigned assigned checker =
     ([Log InfoLevel ''Partitions assigned'' [(''partitions'', PartitionsV assigned)]],
      SetReady True checker)"

definition OnPartitionsRevoked :: "partitions \<Rightarrow> Checker \<Rightarrow> log_entry list \<times> Checker" where
  "OnPartitionsRevoked revoked checker =
     ([Log InfoLevel ''Partitions revoked'' [(''partitions'', PartitionsV revoked)]],
      SetReady False checker)"

definition OnPartitionsLost :: "partitions \<Rightarrow> Checker \<Rightarrow> log_entry list \<times> Checker" where
  "OnPartitionsLost lost checker =
     ([Log WarnLevel ''Partitions lost'' [(''partitions'', PartitionsV lost)]],
      SetReady False checker)"

text \<open>
  The group protocol delivers rebalance events by calling the registered callback of
  each event, one after the other.
\<close>

datatype rebalance_event = Assigned partitions | Revoked partitions | Lost partitions

fun deliver :: "rebalance_event \<Rightarrow> Checker \<Rightarrow> log_entry list \<times> Checker" where
  "deliver (Assigned m) c = OnPartitionsAssigned m c"
| "deliver (Revoked m) c = OnPartitionsRevoked m c"
| "deliver (Lost m) c = OnPartitionsLost m c"

fun deliver_all :: "rebalance_event list \<Rightarrow> Checker \<Rightarrow> log_entry list \<times> Checker" where
  "deliver_all [] c = ([], c)"
| "deliver_all (ev # evs) c =
     (let (l, c') = deliver ev c; (ls, c'') = deliver_all evs c' in (l @ ls, c''))"

text \<open>The calls a client of the checker can make that change it.\<close>

datatype checker_op = Op_AddReadinessCheck string Check | Op_SetReady bool

fun apply_op :: "checker_op \<Rightarrow> Checker \<Rightarrow> Checker" where
  "apply_op (Op_AddReadinessCheck name check) c = AddReadinessCheck name check c"
| "apply_op (Op_SetReady r) c = SetReady r c"

fun apply_ops :: "checker_op list \<Rightarrow> Checker \<Rightarrow> Checker" where
  "apply_ops [] c = c"
| "apply_ops (op # ops) c = apply_ops ops (apply_op op c)"

section \<open>Package telemetry\<close>

text \<open>
  An implementation of the \<^verbatim>\<open>Processor\<close> interface is modelled by what one call of
  \<^verbatim>\<open>ProcessRecord(ctx, record)\<close> does: the events it causes, of a kind that is the
  implementation's own, and the error it returns. Business logic is a parameter.
\<close>

type_synonym 'e Processor = "Ctx \<Rightarrow> kgo_Record \<Rightarrow> 'e list \<times> error option"

text \<open>
  An \<^verbatim>\<open>attribute.KeyValue\<close>; an attribute set is written as the list of its
  arguments.
\<close>

datatype attr_value = AString string | ABool bool | AInt int

type_synonym attrs = "(string \<times> attr_value) list"

text \<open>
  The calls that the instrumenting processor and the instrumentor make on the telemetry
  sink and on the wrapped processor, in the order they happen. Instruments and tracers are
  identified by name. \<open>Inner_event\<close> carries an event of the wrapped processor.
\<close>

datatype 'b tel_event =
    is_Tracer_Start: Tracer_Start string Ctx string
  | is_Span_End: Span_End string
  | is_Span_SetAttributes: Span_SetAttributes "string option" attrs
  | is_Counter_Add: Counter_Add string Ctx int attrs
  | is_Histogram_Record: Histogram_Record string Ctx real attrs
  | is_Inner_ProcessRecord: Inner_ProcessRecord Ctx kgo_Record
  | is_Inner_event: Inner_event 'b

record Instrumentor =
  MessagesProcessedCounter :: string
  ProcessingTimeHistogram :: string

text \<open>
  \<^verbatim>\<open>NewInstrumentor\<close>; the two arguments are the errors, if any, that the meter
  returns for the two instruments.
\<close>

definition NewInstrumentor :: "error option \<Rightarrow> error option \<Rightarrow> error + Instrumentor" where
  "NewInstrumentor counter_err histogram_err =
     (case counter_err of
        Some err \<Rightarrow> Inl err
      | None \<Rightarrow>
          (case histogram_err of
             Some err \<Rightarrow> Inl err
           | None \<Rightarrow>
               Inr \<lparr>MessagesProcessedCounter = ''kafka.messages.processed'',
                    ProcessingTimeHistogram = ''kafka.message.processing.duration''\<rparr>))"

text \<open>
  Clock readings are nanoseconds. \<^verbatim>\<open>time.Since(t)\<close> is \<^verbatim>\<open>now.Sub(t)\<close>, which
  saturates at the bounds of int64; \<^verbatim>\<open>Duration.Microseconds\<close> divides by 1000 and
  truncates towards zero. The conversion to float64 and the division by 1000.0 are taken
  as exact.
\<close>

type_synonym Time = int

definition time_Sub :: "Time \<Rightarrow> Time \<Rightarrow> int" where
  "time_Sub t u = max (- (2 ^ 63)) (min (2 ^ 63 - 1) (t - u))"

definition Microseconds :: "int \<Rightarrow> int" where
  "Microseconds d = d sdiv 1000"

text \<open>\<open>now\<close> is the reading of the clock when \<^verbatim>\<open>InstrumentMessage\<close> runs.\<close>

definition InstrumentMessage ::
  "Instrumentor \<Rightarrow> Time \<Rightarrow> Ctx \<Rightarrow> kgo_Record \<Rightarrow> bool \<Rightarrow> Time \<Rightarrow> 'b tel_event list" where
  "InstrumentMessage i now ctx record success startTime =
     (let duration = real_of_int (Microseconds (time_Sub now startTime)) / 1000;
          metricAttrs = [(''messaging.kafka.topic'', AString (Topic record)),
                         (''success'', ABool success)];
          attrs = [(''messaging.kafka.topic'', AString (Topic record)),
                   (''messaging.kafka.partition'', AInt (sint (Partition record)))]
      in [Counter_Add (MessagesProcessedCounter i) ctx 1 metricAttrs,
          Histogram_Record (ProcessingTimeHistogram i) ctx duration metricAttrs,
          Span_SetAttributes (ctx_span ctx) attrs])"

section \<open>Package processor: the instrumenting decorator\<close>

record 'b InstrumentingProcessor =
  processor :: "'b Processor"
  instrumentor :: Instrumentor
  tracer :: string

definition NewInstrumentingProcessor ::
  "'b Processor \<Rightarrow> Instrumentor \<Rightarrow> string \<Rightarrow> 'b InstrumentingProcessor" where
  "NewInstrumentingProcessor proc instr tr =
     \<lparr>processor = proc, instrumentor = instr, tracer = tr\<rparr>"

text \<open>\<^verbatim>\<open>tracer.Start\<close> returns a context that carries the new span, and the span.\<close>

definition tracer_Start :: "Ctx \<Rightarrow> string \<Rightarrow> Ctx \<times> string" where
  "tracer_Start ctx spanName = (Ctx (ctx_id ctx) (Some spanName), spanName)"

text \<open>The two readings of the clock during one call.\<close>

record clock =
  at_Now :: Time
  at_Since :: Time

text \<open>
  \<^verbatim>\<open>InstrumentingProcessor.ProcessRecord\<close>. The result of the wrapped processor is
  assigned to the named result \<^verbatim>\<open>err\<close>; then the deferred calls run, last
  registered first: the closure with \<^verbatim>\<open>InstrumentMessage\<close>, which reads
  \<^verbatim>\<open>err\<close>, then \<^verbatim>\<open>span.End\<close>.
\<close>

definition ProcessRecord ::
  "'b InstrumentingProcessor \<Rightarrow> clock \<Rightarrow> Ctx \<Rightarrow> kgo_Record
     \<Rightarrow> 'b tel_event list \<times> error option" where
  "ProcessRecord p clk ctx0 record =
     (let spanName = Topic record @ '' process'';
          (ctx, span) = tracer_Start ctx0 spanName;
          startTime = at_Now clk;
          (inner_events, err) = InstrumentingProcessor.processor p ctx record
      in ([Tracer_Start (tracer p) ctx0 spanName, Inner_ProcessRecord ctx record]
            @ map Inner_event inner_events
            @ InstrumentMessage (instrumentor p) (at_Since clk) ctx record (err = None) startTime
            @ [Span_End span],
          err))"

section \<open>Package consumer: the poll loop\<close>

text \<open>\<^verbatim>\<open>kgo.FetchError\<close>: the topic, the partition and the error.\<close>

record FetchError =
  err_Topic :: string
  err_Partition :: "32 word"
  Err :: error

text \<open>
  The \<^verbatim>\<open>Fetches\<close> interface: what \<^verbatim>\<open>Errors()\<close> returns, and the records that
  \<^verbatim>\<open>EachRecord\<close> passes to its callback, in that order.
\<close>

record Fetches =
  Errors :: "FetchError list"
  Records :: "kgo_Record list"

text \<open>
  What the loop and its goroutines do, as events: calls of the logger, calls of
  \<^verbatim>\<open>PollFetches\<close>, and calls of the consumer's processor with their returns.
  \<open>Processor_event\<close> carries an event of the processor.
\<close>

datatype 'p consumer_event =
    is_Logger: Logger log_entry
  | is_PollFetches: PollFetches
  | is_call: ProcessRecord_call Ctx kgo_Record
  | is_return: ProcessRecord_return kgo_Record "error option"
  | is_Processor_event: Processor_event 'p

text \<open>\<^verbatim>\<open>Consumer\<close>; the client and the logger are in the environment and the events.\<close>

record 'p Consumer =
  processor :: "'p Processor"

subsection \<open>Goroutines and the wait group\<close>

text \<open>A goroutine is the list of the steps it has left: events, and \<^verbatim>\<open>wg.Done()\<close>.\<close>

datatype 'e step = Emit 'e | wg_Done

text \<open>
  The body of the goroutine started for one record; \<^verbatim>\<open>wg.Done\<close> is deferred, so it
  is the last step.
\<close>

definition record_goroutine :: "'p Consumer \<Rightarrow> kgo_Record \<Rightarrow> 'p consumer_event step list" where
  "record_goroutine c rec =
     (let (events, err) = Consumer.processor c (Context rec) rec
      in Emit (ProcessRecord_call (Context rec) rec)
         # map (\<lambda>e. Emit (Processor_event e)) events
         @ [Emit (ProcessRecord_return rec err)]
         @ (case err of
              Some e \<Rightarrow>
                [Emit (Logger (Log ErrorLevel ''Failed to process record''
                   [(''error'', ErrorV e), (''topic'', StringV (Topic rec)),
                    (''partition'', Int32V (Partition rec)), (''offset'', Int64V (Offset rec))]))]
            | None \<Rightarrow> [])
         @ [wg_Done])"

text \<open>
  The callback given to \<^verbatim>\<open>EachRecord\<close>: \<^verbatim>\<open>wg.Add(1)\<close>, then the \<^verbatim>\<open>go\<close>
  statement. The state is the counter of the wait group and the goroutines started.
\<close>

definition EachRecord_callback ::
  "'p Consumer \<Rightarrow> kgo_Record \<Rightarrow> nat \<times> 'p consumer_event step list list
     \<Rightarrow> nat \<times> 'p consumer_event step list list" where
  "EachRecord_callback c rec = (\<lambda>(n, gs). (n + 1, gs @ [record_goroutine c rec]))"

definition EachRecord :: "Fetches \<Rightarrow> (kgo_Record \<Rightarrow> 's \<Rightarrow> 's) \<Rightarrow> 's \<Rightarrow> 's" where
  "EachRecord fetches f = fold f (Records fetches)"

text \<open>
  The goroutines run their remaining steps one after the other, in list order, until the
  counter is zero. A positive counter with no goroutine left never becomes zero.
\<close>

fun run_in_order :: "nat \<Rightarrow> 'e step list list \<Rightarrow> 'e list option" where
  "run_in_order 0 gs = Some []"
| "run_in_order (Suc n) [] = None"
| "run_in_order (Suc n) ([] # gs) = run_in_order (Suc n) gs"
| "run_in_order (Suc n) ((Emit e # g) # gs) = map_option ((#) e) (run_in_order (Suc n) (g # gs))"
| "run_in_order (Suc n) ((wg_Done # g) # gs) = run_in_order n (g # gs)"

text \<open>
  \<^verbatim>\<open>wg.Wait()\<close> returns when the counter is zero; until then the goroutines take
  steps. The schedule says which goroutine takes the next step (an index that names no
  goroutine with a step left is skipped); when the schedule is used up the goroutines
  run in list order. The result is the events that happened before \<^verbatim>\<open>Wait\<close>
  returned, \<open>None\<close> when it never returns.
\<close>

fun wg_Wait :: "nat list \<Rightarrow> nat \<Rightarrow> 'e step list list \<Rightarrow> 'e list option" where
  "wg_Wait sched 0 gs = Some []"
| "wg_Wait [] (Suc n) gs = run_in_order (Suc n) gs"
| "wg_Wait (i # sched) (Suc n) gs =
     (if i < length gs then
        (case gs ! i of
           [] \<Rightarrow> wg_Wait sched (Suc n) gs
         | Emit e # g \<Rightarrow> map_option ((#) e) (wg_Wait sched (Suc n) (gs[i := g]))
         | wg_Done # g \<Rightarrow> wg_Wait sched n (gs[i := g]))
      else wg_Wait sched (Suc n) gs)"

subsection \<open>Run\<close>

text \<open>
  The environment of one iteration of the loop: what \<^verbatim>\<open>ctx.Err()\<close> returns at the
  start of the iteration, what \<^verbatim>\<open>PollFetches\<close> returns when the iteration calls it,
  and the schedule of the goroutines of the iteration.
\<close>

record iteration =
  ctx_Err :: "error option"
  fetch :: Fetches
  schedule :: "nat list"

definition fetch_error_entry :: "FetchError \<Rightarrow> log_entry" where
  "fetch_error_entry e =
     Log ErrorLevel ''Kafka fetch error''
       [(''topic'', StringV (err_Topic e)), (''partition'', Int32V (err_Partition e)),
        (''error'', ErrorV (Err e))]"

text \<open>
  The body of the \<^verbatim>\<open>for\<close> loop after the test of \<^verbatim>\<open>ctx.Err()\<close>: the events of
  one iteration, \<open>None\<close> when its \<^verbatim>\<open>wg.Wait\<close> never returns.
\<close>

definition loop_body :: "'p Consumer \<Rightarrow> iteration \<Rightarrow> 'p consumer_event list option" where
  "loop_body c it =
     (let fetches = fetch it; errs = Errors fetches in
      if length errs > 0 then
        Some (PollFetches # map (\<lambda>e. Logger (fetch_error_entry e)) errs)
      else
        (let (n, gs) = EachRecord fetches (EachRecord_callback c) (0, []) in
         map_option ((#) PollFetches) (wg_Wait (schedule it) n gs)))"

text \<open>
  \<^verbatim>\<open>Consumer.Run\<close> over the iterations the environment provides. \<open>None\<close>: the loop
  has not returned (it is still polling when the environment ends, or a
  \<^verbatim>\<open>wg.Wait\<close> never returns).
\<close>

fun Run :: "'p Consumer \<Rightarrow> iteration list \<Rightarrow> 'p consumer_event list option" where
  "Run c [] = None"
| "Run c (it # env) =
     (if ctx_Err it \<noteq> None then
        Some [Logger (Log InfoLevel ''Context cancelled, stopping consumer poll loop.'' [])]
      else
        (case loop_body c it of
           None \<Rightarrow> None
         | Some events \<Rightarrow> map_option ((@) events) (Run c env)))"

subsection \<open>Notions for the properties of the loop\<close>

text \<open>The events a goroutine still has to emit.\<close>

fun emits :: "'e step list \<Rightarrow> 'e list" where
  "emits [] = []"
| "emits (Emit e # g) = e # emits g"
| "emits (wg_Done # g) = emits g"

text \<open>
  A goroutine that has finished, or that will call \<^verbatim>\<open>wg.Done\<close> exactly once, as its
  last step.
\<close>

definition done_last :: "'e step list \<Rightarrow> bool" where
  "done_last g \<longleftrightarrow> g = [] \<or> (\<exists>es. g = map Emit es @ [wg_Done])"

definition unfinished :: "'e step list list \<Rightarrow> nat" where
  "unfinished gs = length (filter (\<lambda>g. g \<noteq> []) gs)"

text \<open>The events of the goroutine of one record, in their order.\<close>

definition record_events :: "'p Consumer \<Rightarrow> kgo_Record \<Rightarrow> 'p consumer_event list" where
  "record_events c rec = emits (record_goroutine c rec)"

section \<open>Package config\<close>

text \<open>The \<^verbatim>\<open>Config\<close> struct; a nested field is named by its path.\<close>

record Config =
  AppName :: string
  Kafka_Brokers :: string
  Kafka_Topic :: string
  Kafka_GroupID :: string
  Kafka_RebalanceStrategy :: string
  Kafka_TLS_Enabled :: bool
  Kafka_TLS_CAFile :: string
  Kafka_TLS_CertFile :: string
  Kafka_TLS_KeyFile :: string
  Kafka_SASL_Enabled :: bool
  Kafka_SASL_Mechanism :: string
  Kafka_SASL_Username :: string
  Kafka_SASL_Password :: string
  Server_Port :: string
  Otel_Enabled :: bool
  Otel_Exporter_Grpc_Endpoint :: string

section \<open>Package kgo: the client options\<close>

text \<open>
  What the standard library and the file system answer. The case mappings of package
  \<^verbatim>\<open>strings\<close> are parameters, since they depend on Unicode tables;
  \<^verbatim>\<open>tls.LoadX509KeyPair\<close> gives the error of loading a key pair, if any, and
  \<^verbatim>\<open>os.ReadFile\<close> an error or the bytes of the file.
\<close>

record library =
  strings_ToLower :: "string \<Rightarrow> string"
  strings_ToUpper :: "string \<Rightarrow> string"
  tls_LoadX509KeyPair :: "string \<Rightarrow> string \<Rightarrow> error option"
  os_ReadFile :: "string \<Rightarrow> error + 8 word list"

text \<open>\<^verbatim>\<open>strings.Split(s, sep)\<close> for a separator of one byte.\<close>

fun strings_Split :: "string \<Rightarrow> char \<Rightarrow> string list" where
  "strings_Split [] sep = [[]]"
| "strings_Split (c # cs) sep =
     (if c = sep then [] # strings_Split cs sep
      else (c # hd (strings_Split cs sep)) # tl (strings_Split cs sep))"

text \<open>A loaded key pair is named by its two files; a certificate pool by the PEM bytes added.\<close>

datatype tls_Certificate = tls_Certificate string string

record tls_Config =
  Certificates :: "tls_Certificate list"
  RootCAs :: "8 word list option"

definition createTLSConfig :: "library \<Rightarrow> string \<Rightarrow> string \<Rightarrow> string \<Rightarrow> error + tls_Config" where
  "createTLSConfig lib certFile keyFile caFile =
     (let tlsConfig = \<lparr>Certificates = [], RootCAs = None\<rparr>;
          loaded =
            (if certFile \<noteq> [] \<and> keyFile \<noteq> [] then
               (case tls_LoadX509KeyPair lib certFile keyFile of
                  Some err \<Rightarrow> Inl (''could not load client key pair: '' @ err)
                | None \<Rightarrow> Inr (tlsConfig\<lparr>Certificates := [tls_Certificate certFile keyFile]\<rparr>))
             else Inr tlsConfig)
      in case loaded of
           Inl err \<Rightarrow> Inl err
         | Inr tlsConfig \<Rightarrow>
             (if caFile \<noteq> [] then
                (case os_ReadFile lib caFile of
                   Inl err \<Rightarrow> Inl (''could not read CA certificate: '' @ err)
                 | Inr caCert \<Rightarrow> Inr (tlsConfig\<lparr>RootCAs := Some caCert\<rparr>))
              else Inr tlsConfig))"

text \<open>Tracer and meter providers are named by the endpoint they export to.\<close>

datatype TracerProvider = TracerProvider string

datatype MeterProvider = MeterProvider string

datatype Balancer = RoundRobinBalancer | RangeBalancer | StickyBalancer

datatype sasl_Mechanism =
    plain_Auth string string
  | scram_Sha256 string string
  | scram_Sha512 string string

text \<open>
  \<^verbatim>\<open>kgo.Opt\<close>: the options that \<^verbatim>\<open>BuildKgoOptions\<close> can produce. The three
  callback options register the closures \<open>OnPartitionsAssigned\<close>,
  \<open>OnPartitionsRevoked\<close> and \<open>OnPartitionsLost\<close> above, on the checker passed in.
\<close>

datatype Opt =
    RequiredAcks_AllISRAcks
  | SeedBrokers "string list"
  | ConsumerGroup string
  | ConsumeTopics string
  | Opt_OnPartitionsAssigned
  | Opt_OnPartitionsRevoked
  | Opt_OnPartitionsLost
  | FetchMaxBytes nat
  | WithHooks "TracerProvider option"
  | is_Balancers: Balancers Balancer
  | DialTLSConfig tls_Config
  | SASL sasl_Mechanism

text \<open>
  A function that may end the process instead of returning. \<^verbatim>\<open>zap.S().Fatalf\<close>
  writes the entry and calls \<^verbatim>\<open>os.Exit(1)\<close> (\<open>Exit\<close>). A method call on a nil
  \<^verbatim>\<open>*sdktrace.TracerProvider\<close> dereferences the nil pointer and panics (\<open>Panic\<close>).
\<close>

datatype 'a or_exit = Exit | Panic | Return 'a

text \<open>
  \<^verbatim>\<open>BuildKgoOptions\<close>: the entries it logs, and the options, unless it ended the
  process. The order is that of the source: the fixed options, the hooks, the rebalance
  strategy, TLS, SASL. With telemetry enabled, \<^verbatim>\<open>kotel.NewTracer\<close> asks the tracer
  provider for a tracer; on a nil provider this panics, before anything is logged.
\<close>

definition BuildKgoOptions ::
  "library \<Rightarrow> Config \<Rightarrow> TracerProvider option \<Rightarrow> log_entry list \<times> Opt list or_exit" where
  "BuildKgoOptions lib cfg tp =
     (if Otel_Enabled cfg \<and> tp = None then ([], Panic)
      else
      let opts =
            [RequiredAcks_AllISRAcks,
             SeedBrokers (strings_Split (Kafka_Brokers cfg) (CHR '','')),
             ConsumerGroup (Kafka_GroupID cfg),
             ConsumeTopics (Kafka_Topic cfg),
             Opt_OnPartitionsAssigned,
             Opt_OnPartitionsRevoked,
             Opt_OnPartitionsLost,
             FetchMaxBytes (1024 * 1024 * 5)];
          opts = (if Otel_Enabled cfg then opts @ [WithHooks tp] else opts);
          strategy = strings_ToLower lib (Kafka_RebalanceStrategy cfg);
          (entries, opts) =
            (if strategy = ''roundrobin'' then ([], opts @ [Balancers RoundRobinBalancer])
             else if strategy = ''range'' then ([], opts @ [Balancers RangeBalancer])
             else if strategy = ''sticky'' then ([], opts @ [Balancers StickyBalancer])
             else
               ([Log WarnLevel
                   (''Unknown or empty rebalance strategy '' @ [CHR 0x27]
                      @ Kafka_RebalanceStrategy cfg @ [CHR 0x27] @ '', using default.'') []],
                opts));
          tls =
            (if Kafka_TLS_Enabled cfg then
               (case createTLSConfig lib (Kafka_TLS_CertFile cfg) (Kafka_TLS_KeyFile cfg)
                       (Kafka_TLS_CAFile cfg) of
                  Inl err \<Rightarrow> Inl (Log FatalLevel (''Failed to create TLS config: '' @ err) [])
                | Inr tlsConfig \<Rightarrow> Inr (opts @ [DialTLSConfig tlsConfig]))
             else Inr opts)
      in case tls of
           Inl fatal \<Rightarrow> (entries @ [fatal], Exit)
         | Inr opts \<Rightarrow>
             (if Kafka_SASL_Enabled cfg then
                (let mechanism = strings_ToUpper lib (Kafka_SASL_Mechanism cfg);
                     user = Kafka_SASL_Username cfg;
                     pass = Kafka_SASL_Password cfg
                 in if mechanism = ''PLAIN'' then
                      (entries, Return (opts @ [SASL (plain_Auth user pass)]))
                    else if mechanism = ''SCRAM-SHA-256'' then
                      (entries, Return (opts @ [SASL (scram_Sha256 user pass)]))
                    else if mechanism = ''SCRAM-SHA-512'' then
                      (entries, Return (opts @ [SASL (scram_Sha512 user pass)]))
                    else
                      (entries @ [Log FatalLevel
                                (''Unsupported SASL mechanism: '' @ Kafka_SASL_Mechanism cfg) []],
                       Exit))
              else (entries, Return opts)))"

subsection \<open>Notions for the properties of the options\<close>

text \<open>The two conditions under which \<^verbatim>\<open>BuildKgoOptions\<close> ends the process.\<close>

definition tls_fails :: "library \<Rightarrow> Config \<Rightarrow> bool" where
  "tls_fails lib conf \<longleftrightarrow>
     Kafka_TLS_Enabled conf
     \<and> isl (createTLSConfig lib (Kafka_TLS_CertFile conf) (Kafka_TLS_KeyFile conf) (Kafka_TLS_CAFile conf))"

definition sasl_unsupported :: "library \<Rightarrow> Config \<Rightarrow> bool" where
  "sasl_unsupported lib conf \<longleftrightarrow>
     Kafka_SASL_Enabled conf
     \<and> strings_ToUpper lib (Kafka_SASL_Mechanism conf)
         \<notin> {''PLAIN'', ''SCRAM-SHA-256'', ''SCRAM-SHA-512''}"

section \<open>Package otel\<close>

text \<open>The errors, if any, of the three constructions that \<^verbatim>\<open>InitOtelProviders\<close> makes.\<close>

record otel_results =
  resource_Merge_err :: "error option"
  otlptracegrpc_New_err :: "error option"
  otlpmetricgrpc_New_err :: "error option"

definition InitOtelProviders ::
  "otel_results \<Rightarrow> Config
     \<Rightarrow> log_entry list \<times> (error + TracerProvider option \<times> MeterProvider option)" where
  "InitOtelProviders res cfg =
     (if \<not> Otel_Enabled cfg then
        ([Log InfoLevel ''OpenTelemetry is disabled.'' []], Inr (None, None))
      else
        (let entries = [Log InfoLevel ''OpenTelemetry is enabled. Initializing providers...'' []] in
         case resource_Merge_err res of
           Some err \<Rightarrow> (entries, Inl (''failed to create resource: '' @ err))
         | None \<Rightarrow>
             (case otlptracegrpc_New_err res of
                Some err \<Rightarrow> (entries, Inl (''failed to create OTLP trace exporter: '' @ err))
              | None \<Rightarrow>
                  (let entries = entries @ [Log InfoLevel ''OpenTelemetry tracer provider initialized.'' []]
                   in case otlpmetricgrpc_New_err res of
                        Some err \<Rightarrow>
                          (entries, Inl (''failed to create OTLP metric exporter: '' @ err))
                      | None \<Rightarrow>
                          (entries @ [Log InfoLevel ''OpenTelemetry meter provider initialized.'' []],
                           Inr (Some (TracerProvider (Otel_Exporter_Grpc_Endpoint cfg)),
                                Some (MeterProvider (Otel_Exporter_Grpc_Endpoint cfg))))))))"

section \<open>Package ktel: the application\<close>

record app =
  cfg :: Config
  KafkaClient :: "Opt list"
  HealthChecker :: Checker
  tracerProvider :: "TracerProvider option"
  meterProvider :: "MeterProvider option"

text \<open>What the constructors that \<^verbatim>\<open>New\<close> calls outside this repository return.\<close>

record new_results =
  config_New :: "error + Config"
  logger_New :: "error option"
  otel_res :: otel_results
  stdlib :: library
  kgo_NewClient :: "Opt list \<Rightarrow> error option"

text \<open>
  \<^verbatim>\<open>New\<close>: the entries logged, and the application or the error returned, unless the
  process ended in \<^verbatim>\<open>BuildKgoOptions\<close>. With telemetry disabled the two providers
  of the application are nil.
\<close>

definition New :: "new_results \<Rightarrow> log_entry list \<times> (error + app) or_exit" where
  "New res =
     (case config_New res of
        Inl err \<Rightarrow> ([], Return (Inl (''failed to load configuration: '' @ err)))
      | Inr conf \<Rightarrow>
          (case logger_New res of
             Some err \<Rightarrow> ([], Return (Inl (''failed to initialize logger: '' @ err)))
           | None \<Rightarrow>
               (case InitOtelProviders (otel_res res) conf of
                  (entries, Inl err) \<Rightarrow>
                    (entries,
                     Return (Inl (''failed to initialize OpenTelemetry providers: '' @ err)))
                | (entries, Inr (tp, mp)) \<Rightarrow>
                    (let healthChecker = NewChecker in
                     case BuildKgoOptions (stdlib res) conf tp of
                       (entries', Exit) \<Rightarrow> (entries @ entries', Exit)
                     | (entries', Panic) \<Rightarrow> (entries @ entries', Panic)
                     | (entries', Return kgoOptions) \<Rightarrow>
                         (case kgo_NewClient res kgoOptions of
                            Some err \<Rightarrow>
                              (entries @ entries',
                               Return (Inl (''failed to create Kafka client: '' @ err)))
                          | None \<Rightarrow>
                              (entries @ entries',
                               Return (Inr \<lparr>cfg = conf, KafkaClient = kgoOptions,
                                            HealthChecker = healthChecker,
                                            tracerProvider = tp, meterProvider = mp\<rparr>)))))))"

text \<open>
  What the goroutine that runs \<^verbatim>\<open>Start\<close> does, as events, in program order. The two
  goroutines it starts (the probe server and \<^verbatim>\<open>Consumer.Run\<close>) appear as the event of
  their \<^verbatim>\<open>go\<close> statement, which follows \<^verbatim>\<open>wg.Add(1)\<close>; what they do is not part
  of this trace. \<open>cleanupFn f\<close> is the call of a cleanup function.
\<close>

datatype 'f app_event =
    Zap log_entry
  | signal_NotifyContext
  | go_ListenAndServe string
  | go_Consumer_Run
  | ctx_Done
  | Server_Shutdown
  | TracerProvider_Shutdown
  | MeterProvider_Shutdown
  | KafkaClient_Close
  | cleanupFn 'f
  | wg_Wait_call
  | stop

text \<open>
  What \<^verbatim>\<open>Start\<close> meets: the errors of the two instruments of
  \<^verbatim>\<open>NewInstrumentor\<close>, whether a termination signal ever arrives, the errors of the
  three shutdown calls, and whether the goroutines of the wait group ever return.
\<close>

record start_results =
  counter_err :: "error option"
  histogram_err :: "error option"
  signal :: bool
  Server_Shutdown_err :: "error option"
  TracerProvider_Shutdown_err :: "error option"
  MeterProvider_Shutdown_err :: "error option"
  goroutines_return :: bool

datatype outcome = Exited | Panicked | Blocked | Returned "error option"

definition startHealthCheckServer :: "app \<Rightarrow> 'f app_event list" where
  "startHealthCheckServer a = [go_ListenAndServe ('':'' @ Server_Port (cfg a))]"

text \<open>
  \<^verbatim>\<open>startConsumer\<close>. After the instrumentor it builds the instrumenting processor
  with \<^verbatim>\<open>a.tracerProvider.Tracer(a.cfg.AppName)\<close>; on a nil provider that call
  panics, before the consumer is built and its goroutine started.
\<close>

definition startConsumer ::
  "app \<Rightarrow> start_results \<Rightarrow> 'f app_event list \<times> error option or_exit" where
  "startConsumer a res =
     (case NewInstrumentor (counter_err res) (histogram_err res) of
        Inl err \<Rightarrow> ([], Return (Some (''failed to create telemetry instrumentor: '' @ err)))
      | Inr instr \<Rightarrow>
          (case tracerProvider a of
             None \<Rightarrow> ([], Panic)
           | Some provider \<Rightarrow>
               ([Zap (Log DebugLevel ''Kafka consumer started...'' []), go_Consumer_Run],
                Return None)))"

definition shutdownHTTPServer :: "start_results \<Rightarrow> 'f app_event list" where
  "shutdownHTTPServer res =
     Server_Shutdown
     # (case Server_Shutdown_err res of
          Some err \<Rightarrow> [Zap (Log WarnLevel ''HTTP server shutdown error'' [(''error'', ErrorV err)])]
        | None \<Rightarrow> [Zap (Log DebugLevel ''HTTP server shutdown complete.'' [])])"

definition shutdownOtelProviders :: "app \<Rightarrow> start_results \<Rightarrow> 'f app_event list" where
  "shutdownOtelProviders a res =
     (if tracerProvider a \<noteq> None then
        TracerProvider_Shutdown
        # (case TracerProvider_Shutdown_err res of
             Some err \<Rightarrow>
               [Zap (Log ErrorLevel (''Error shutting down tracer provider: '' @ err) [])]
           | None \<Rightarrow> [])
      else [])
     @ (if meterProvider a \<noteq> None then
          MeterProvider_Shutdown
          # (case MeterProvider_Shutdown_err res of
               Some err \<Rightarrow>
                 [Zap (Log ErrorLevel (''Error shutting down meter provider: '' @ err) [])]
             | None \<Rightarrow> [])
        else [])"

text \<open>
  \<^verbatim>\<open>Start\<close>, with the cleanup functions as a list. The deferred \<^verbatim>\<open>stop()\<close> runs
  when \<^verbatim>\<open>Start\<close> returns, and also when it panics, before the process ends.
  \<^verbatim>\<open><-ctx.Done()\<close> blocks until a signal arrives, and \<^verbatim>\<open>wg.Wait()\<close> until the
  goroutines return. \<^verbatim>\<open>startConsumer\<close> does not call \<^verbatim>\<open>Fatalf\<close>.
\<close>

definition Start :: "app \<Rightarrow> start_results \<Rightarrow> 'f list \<Rightarrow> 'f app_event list \<times> outcome" where
  "Start a res cleanupFns =
     (let events = signal_NotifyContext # startHealthCheckServer a in
      case startConsumer a res of
        (started, Exit) \<Rightarrow> (events @ started, Exited)
      | (started, Panic) \<Rightarrow> (events @ started @ [stop], Panicked)
      | (started, Return (Some err)) \<Rightarrow> (events @ started @ [stop], Returned (Some err))
      | (started, Return None) \<Rightarrow>
          (let events = events @ started in
           if \<not> signal res then (events, Blocked)
           else
             (let events =
                    events
                    @ [ctx_Done,
                       Zap (Log InfoLevel
                         ''Termination signal received, initiating graceful shutdown...'' [])]
                    @ shutdownHTTPServer res
                    @ shutdownOtelProviders a res
                    @ [KafkaClient_Close]
                    @ map cleanupFn cleanupFns
                    @ [Zap (Log InfoLevel ''Cleanup tasks completed.'' []), wg_Wait_call]
              in if \<not> goroutines_return res then (events, Blocked)
                 else
                   (events @ [Zap (Log DebugLevel ''All services shut down gracefully.'' []), stop],
                    Returned None))))"

text \<open>
  The \<^verbatim>\<open>run\<close> function of the example program: \<^verbatim>\<open>New\<close>, then \<^verbatim>\<open>Start\<close> with no
  cleanup function.
\<close>

definition run :: "new_results \<Rightarrow> start_results \<Rightarrow> 'f app_event list \<times> outcome" where
  "run nres sres =
     (case New nres of
        (entries, Exit) \<Rightarrow> (map Zap entries, Exited)
      | (entries, Panic) \<Rightarrow> (map Zap entries, Panicked)
      | (entries, Return (Inl err)) \<Rightarrow> (map Zap entries, Returned (Some err))
      | (entries, Return (Inr a)) \<Rightarrow>
          (let (events, out) = Start a sres [] in (map Zap entries @ events, out)))"

subsection \<open>Order of events\<close>

text \<open>The position of the first occurrence of an event.\<close>

fun first_index :: "'a \<Rightarrow> 'a list \<Rightarrow> nat option" where
  "first_index a [] = None"
| "first_index a (x # xs) = (if x = a then Some 0 else map_option Suc (first_index a xs))"

text \<open>Both events occur, and the first \<open>a\<close> comes before the first \<open>b\<close>.\<close>

definition precedes :: "'a \<Rightarrow> 'a \<Rightarrow> 'a list \<Rightarrow> bool" where
  "precedes a b tr =
     (case first_index a tr of
        None \<Rightarrow> False
      | Some i \<Rightarrow> (case first_index b tr of None \<Rightarrow> False | Some j \<Rightarrow> i < j))"

text \<open>The case mappings restricted to ASCII letters, for the examples.\<close>

definition ascii_ToUpper :: "string \<Rightarrow> string" where
  "ascii_ToUpper =
     map (\<lambda>c. case map_of (zip ''abcdefghijklmnopqrstuvwxyz'' ''ABCDEFGHIJKLMNOPQRSTUVWXYZ'') c of
                 Some u \<Rightarrow> u | None \<Rightarrow> c)"

definition ascii_ToLower :: "string \<Rightarrow> string" where
  "ascii_ToLower =
     map (\<lambda>c. case map_of (zip ''ABCDEFGHIJKLMNOPQRSTUVWXYZ'' ''abcdefghijklmnopqrstuvwxyz'') c of
                 Some l \<Rightarrow> l | None \<Rightarrow> c)"

section \<open>Example inputs\<close>

definition ex_record_1 :: kgo_Record where
  "ex_record_1 =
     \<lparr>Topic = ''orders'', Partition = 0, Offset = 42, Key = [], Value = [1, 2], Headers = [],
      Context = Ctx 1 None\<rparr>"

definition ex_record_2 :: kgo_Record where
  "ex_record_2 =
     \<lparr>Topic = ''orders'', Partition = 1, Offset = 43, Key = [], Value = [3], Headers = [],
      Context = Ctx 2 None\<rparr>"

definition ex_fetch_error :: FetchError where
  "ex_fetch_error = \<lparr>err_Topic = ''orders'', err_Partition = 2, Err = ''broker not available''\<rparr>"

text \<open>A processor that fails on the record at offset 43.\<close>

definition ex_consumer :: "unit Consumer" where
  "ex_consumer =
     \<lparr>Consumer.processor = (\<lambda>ctx r. ([], if Offset r = 43 then Some ''bad record'' else None))\<rparr>"

definition ex_iteration_records :: iteration where
  "ex_iteration_records =
     \<lparr>ctx_Err = None, fetch = \<lparr>Errors = [], Records = [ex_record_1, ex_record_2]\<rparr>,
      schedule = [1, 0, 1]\<rparr>"

definition ex_iteration_errors :: iteration where
  "ex_iteration_errors =
     \<lparr>ctx_Err = None, fetch = \<lparr>Errors = [ex_fetch_error], Records = [ex_record_1]\<rparr>,
      schedule = []\<rparr>"

definition ex_iteration_cancelled :: iteration where
  "ex_iteration_cancelled =
     \<lparr>ctx_Err = Some ''context canceled'', fetch = \<lparr>Errors = [], Records = []\<rparr>, schedule = []\<rparr>"

text \<open>A library whose key pair \<^verbatim>\<open>bad.pem\<close> does not load.\<close>

definition ex_library :: library where
  "ex_library =
     \<lparr>strings_ToLower = ascii_ToLower, strings_ToUpper = ascii_ToUpper,
      tls_LoadX509KeyPair =
        (\<lambda>certFile keyFile.
           if certFile = ''bad.pem'' then Some ''tls: failed to find any PEM data'' else None),
      os_ReadFile = (\<lambda>name. Inr [])\<rparr>"

text \<open>The configuration of the README, with a rebalance strategy that is not known.\<close>

definition ex_config :: Config where
  "ex_config =
     \<lparr>AppName = ''kafka-consumer'', Kafka_Brokers = ''localhost:29092'',
      Kafka_Topic = ''kafka.topic'', Kafka_GroupID = ''kafka-consumer-group'',
      Kafka_RebalanceStrategy = ''cooperative'',
      Kafka_TLS_Enabled = False, Kafka_TLS_CAFile = [], Kafka_TLS_CertFile = [],
      Kafka_TLS_KeyFile = [],
      Kafka_SASL_Enabled = False, Kafka_SASL_Mechanism = ''SCRAM-SHA-512'',
      Kafka_SASL_Username = [], Kafka_SASL_Password = [],
      Server_Port = ''1323'', Otel_Enabled = True,
      Otel_Exporter_Grpc_Endpoint = ''localhost:4317''\<rparr>"

definition ex_config_sasl :: Config where
  "ex_config_sasl = ex_config\<lparr>Kafka_SASL_Enabled := True, Kafka_SASL_Mechanism := ''GSSAPI''\<rparr>"

definition ex_config_tls :: Config where
  "ex_config_tls =
     ex_config\<lparr>Kafka_TLS_Enabled := True, Kafka_TLS_CertFile := ''bad.pem'',
                Kafka_TLS_KeyFile := ''key.pem''\<rparr>"

definition ex_new_results :: "Config \<Rightarrow> new_results" where
  "ex_new_results conf =
     \<lparr>config_New = Inr conf, logger_New = None,
      otel_res = \<lparr>resource_Merge_err = None, otlptracegrpc_New_err = None,
                  otlpmetricgrpc_New_err = None\<rparr>,
      stdlib = ex_library, kgo_NewClient = (\<lambda>opts. None)\<rparr>"

definition ex_app :: app where
  "ex_app =
     \<lparr>cfg = ex_config, KafkaClient = [], HealthChecker = NewChecker,
      tracerProvider = Some (TracerProvider ''localhost:4317''),
      meterProvider = Some (MeterProvider ''localhost:4317'')\<rparr>"

definition ex_start_results :: start_results where
  "ex_start_results =
     \<lparr>counter_err = None, histogram_err = None, signal = True, Server_Shutdown_err = None,
      TracerProvider_Shutdown_err = None, MeterProvider_Shutdown_err = None,
      goroutines_return = True\<rparr>"

section \<open>Properties of the readiness tracker\<close>

lemma deliver_all_append:
  "deliver_all (evs @ evs') c =
     (fst (deliver_all evs c) @ fst (deliver_all evs' (snd (deliver_all evs c))),
      snd (deliver_all evs' (snd (deliver_all evs c))))"
  by (induction evs arbitrary: c) (simp_all add: case_prod_unfold Let_def)

lemma deliver_ready:
  "ready (snd (deliver ev c)) = (case ev of Assigned m \<Rightarrow> True | Revoked m \<Rightarrow> False | Lost m \<Rightarrow> False)"
  by (cases ev)
     (simp_all add: OnPartitionsAssigned_def OnPartitionsRevoked_def OnPartitionsLost_def
        SetReady_def)

lemma deliver_all_last_ready:
  "ready (snd (deliver_all (evs @ [ev]) c)) =
     (case ev of Assigned m \<Rightarrow> True | Revoked m \<Rightarrow> False | Lost m \<Rightarrow> False)"
  by (simp add: deliver_all_append case_prod_unfold Let_def deliver_ready)

text \<open>
  Claim C2. After any sequence of rebalance events, delivered to a checker in any
  state, the readiness flag is the one the last event sets: true after an assignment
  of a non-empty partition map, false after a revocation, false after a loss.
\<close>

theorem rebalance_last_event_decides:
  "(m \<noteq> [] \<longrightarrow> IsReady (snd (deliver_all (evs @ [Assigned m]) c)))
   \<and> \<not> IsReady (snd (deliver_all (evs @ [Revoked m]) c))
   \<and> \<not> IsReady (snd (deliver_all (evs @ [Lost m]) c))"
  by (simp add: IsReady_def deliver_all_last_ready)

theorem rebalance_last_event_decides_witness:
  "[(''t'', [0, 1 :: 32 word])] \<noteq> []
   \<and> IsReady (snd (deliver_all ([Revoked [(''t'', [0])]] @ [Assigned [(''t'', [0, 1])]]) NewChecker))
   \<and> \<not> IsReady (snd (deliver_all ([Assigned [(''t'', [0, 1])]] @ [Revoked [(''t'', [0])]]) NewChecker))
   \<and> \<not> IsReady (snd (deliver_all ([Assigned [(''t'', [0, 1])]] @ [Lost [(''t'', [0])]]) NewChecker))"
  using rebalance_last_event_decides [of "[(''t'', [0, 1])]" "[Revoked [(''t'', [0])]]" NewChecker]
    rebalance_last_event_decides [of "[(''t'', [0])]" "[Assigned [(''t'', [0, 1])]]" NewChecker]
  by simp

text \<open>
  Claim C10. The assignment callback sets the readiness flag to true for every
  assigned-partition map, the empty map included: it does not look at its argument.
\<close>

theorem assigned_sets_ready_unconditionally:
  "IsReady (snd (OnPartitionsAssigned assigned c))
   \<and> IsReady (snd (OnPartitionsAssigned [] c))
   \<and> IsReady (snd (deliver_all (evs @ [Assigned []]) c))"
  by (simp add: IsReady_def deliver_all_last_ready)
     (simp add: OnPartitionsAssigned_def SetReady_def)

lemma readiness_loop_None_iff:
  "readiness_loop es w = None \<longleftrightarrow> (\<forall>(name, check) \<in> set es. check () = None)"
  by (induction es w rule: readiness_loop.induct) (auto split: option.splits)

lemma readiness_loop_Some:
  "readiness_loop es w = Some w' \<Longrightarrow>
     \<exists>name check err. (name, check) \<in> set es \<and> check () = Some err
       \<and> w' = http_Error w (name @ '' is not ready: '' @ err) StatusServiceUnavailable"
  by (induction es w rule: readiness_loop.induct) (auto split: option.splits)

lemma set_map_filter:
  "set (List.map_filter f xs) = {y. \<exists>x \<in> set xs. f x = Some y}"
  by (induction xs) (auto split: option.splits)

lemma set_range_entries:
  assumes "range_order m order"
  shows "set (range_entries m order) = {(k, v). m k = Some v}"
proof -
  have "set order = dom m" using assms by (simp add: range_order_def)
  then show ?thesis
    by (auto simp: range_entries_def set_map_filter)
qed

lemma http_Error_NewRecorder:
  "status (http_Error NewRecorder err code) = Some code"
  "body (http_Error NewRecorder err code) = err @ [CHR 0x0A]"
  by (simp_all add: http_Error_def Write_def WriteHeader_def NewRecorder_def Let_def)

lemma ok_NewRecorder:
  "status (Write ''ok'' (WriteHeader StatusOK NewRecorder)) = Some 200"
  "body (Write ''ok'' (WriteHeader StatusOK NewRecorder)) = ''ok''"
  by (simp_all add: Write_def WriteHeader_def NewRecorder_def Let_def StatusOK_def)

text \<open>
  Claim C6. Whatever order the map is ranged in, the readiness probe answers 503 exactly
  when the readiness flag is false or some registered check returns an error now, and
  otherwise 200 with the body "ok". With the flag false the body says that no partitions
  are assigned; with the flag true the 503 body names a check that failed. The liveness
  probe answers 200 with the body "ok" for every checker and request.
\<close>

theorem readiness_probe_503_iff:
  assumes "range_order (readinessChecks c) order"
  shows "(status (ReadinessProbe c order NewRecorder r) = Some 503 \<longleftrightarrow>
           \<not> IsReady c \<or> (\<exists>name check err. readinessChecks c name = Some check \<and> check () = Some err))
     \<and> (status (ReadinessProbe c order NewRecorder r) \<noteq> Some 503 \<longrightarrow>
           status (ReadinessProbe c order NewRecorder r) = Some 200
           \<and> body (ReadinessProbe c order NewRecorder r) = ''ok'')
     \<and> (\<not> IsReady c \<longrightarrow>
           body (ReadinessProbe c order NewRecorder r)
             = ''consumer not ready (no partitions assigned)'' @ [CHR 0x0A])
     \<and> (IsReady c \<and> status (ReadinessProbe c order NewRecorder r) = Some 503 \<longrightarrow>
           (\<exists>name check err. readinessChecks c name = Some check \<and> check () = Some err
              \<and> body (ReadinessProbe c order NewRecorder r)
                   = name @ '' is not ready: '' @ err @ [CHR 0x0A]))
     \<and> status (LivenessProbe c NewRecorder r') = Some 200
     \<and> body (LivenessProbe c NewRecorder r') = ''ok''"
proof (cases "ready c")
  case False
  then show ?thesis
    by (simp add: ReadinessProbe_def IsReady_def LivenessProbe_def http_Error_NewRecorder
        ok_NewRecorder StatusServiceUnavailable_def)
next
  case True
  let ?es = "range_entries (readinessChecks c) order"
  have es: "set ?es = {(k, v). readinessChecks c k = Some v}"
    using assms by (rule set_range_entries)
  show ?thesis
  proof (cases "readiness_loop ?es NewRecorder")
    case None
    then have "\<forall>(name, check) \<in> set ?es. check () = None"
      by (simp add: readiness_loop_None_iff)
    with es have nofail: "\<not> (\<exists>name check err. readinessChecks c name = Some check \<and> check () = Some err)"
      by auto
    from None True nofail show ?thesis
      by (simp add: ReadinessProbe_def IsReady_def LivenessProbe_def ok_NewRecorder)
  next
    case (Some w')
    from readiness_loop_Some [OF Some] obtain name check err where
      mem: "(name, check) \<in> set ?es" and err: "check () = Some err"
      and w': "w' = http_Error NewRecorder (name @ '' is not ready: '' @ err) StatusServiceUnavailable"
      by blast
    from mem es have "readinessChecks c name = Some check" by auto
    with err w' Some True show ?thesis
      by (auto simp: ReadinessProbe_def IsReady_def LivenessProbe_def ok_NewRecorder
          http_Error_NewRecorder StatusServiceUnavailable_def)
  qed
qed

theorem readiness_probe_503_iff_witness:
  "range_order (readinessChecks (AddReadinessCheck ''db'' (\<lambda>_. Some ''down'') (SetReady True NewChecker))) [''db'']
   \<and> status (ReadinessProbe (AddReadinessCheck ''db'' (\<lambda>_. Some ''down'') (SetReady True NewChecker)) [''db''] NewRecorder ()) = Some 503
   \<and> body (ReadinessProbe (AddReadinessCheck ''db'' (\<lambda>_. Some ''down'') (SetReady True NewChecker)) [''db''] NewRecorder ())
        = ''db is not ready: down'' @ [CHR 0x0A]
   \<and> range_order (readinessChecks (SetReady True NewChecker)) []
   \<and> status (ReadinessProbe (SetReady True NewChecker) [] NewRecorder ()) = Some 200
   \<and> body (ReadinessProbe (SetReady True NewChecker) [] NewRecorder ()) = ''ok''
   \<and> range_order (readinessChecks NewChecker) [] \<and> \<not> IsReady NewChecker
   \<and> status (ReadinessProbe NewChecker [] NewRecorder ()) = Some 503
   \<and> body (ReadinessProbe NewChecker [] NewRecorder ())
        = ''consumer not ready (no partitions assigned)'' @ [CHR 0x0A]"
proof -
  let ?c = "AddReadinessCheck ''db'' (\<lambda>_. Some ''down'') (SetReady True NewChecker)"
  have h: "range_order (readinessChecks ?c) [''db'']"
    by (simp add: range_order_def AddReadinessCheck_def SetReady_def NewChecker_def)
  have h2: "range_order (readinessChecks (SetReady True NewChecker)) []"
    by (simp add: range_order_def SetReady_def NewChecker_def)
  have h3: "range_order (readinessChecks NewChecker) []"
    by (simp add: range_order_def NewChecker_def)
  have b: "body (ReadinessProbe ?c [''db''] NewRecorder ()) = ''db is not ready: down'' @ [CHR 0x0A]"
    by (simp add: ReadinessProbe_def AddReadinessCheck_def SetReady_def NewChecker_def
        range_entries_def http_Error_NewRecorder)
  from readiness_probe_503_iff [OF h, of "()" "()"] readiness_probe_503_iff [OF h2, of "()" "()"]
    readiness_probe_503_iff [OF h3, of "()" "()"] h h2 h3 b
  show ?thesis
    by (simp add: IsReady_def AddReadinessCheck_def SetReady_def NewChecker_def)
qed

lemma apply_ops_not_ready:
  "Op_SetReady True \<notin> set ops \<Longrightarrow> \<not> ready c \<Longrightarrow> \<not> ready (apply_ops ops c)"
proof (induction ops arbitrary: c)
  case Nil
  then show ?case by simp
next
  case (Cons op ops)
  then show ?case
    by (cases op) (auto simp: AddReadinessCheck_def SetReady_def)
qed

text \<open>
  Claim C9. A checker from \<^verbatim>\<open>NewChecker\<close> is not ready, and it stays so through
  any calls that do not include \<^verbatim>\<open>SetReady(true)\<close>: \<^verbatim>\<open>IsReady\<close> is false and
  the readiness probe answers 503 saying that no partitions are assigned, for every
  request, although no revoke or loss event occurred.
\<close>

theorem new_checker_not_ready:
  assumes "Op_SetReady True \<notin> set ops"
  shows "\<not> IsReady NewChecker
    \<and> \<not> IsReady (apply_ops ops NewChecker)
    \<and> status (ReadinessProbe (apply_ops ops NewChecker) order NewRecorder r) = Some 503
    \<and> body (ReadinessProbe (apply_ops ops NewChecker) order NewRecorder r)
         = ''consumer not ready (no partitions assigned)'' @ [CHR 0x0A]"
proof -
  have "\<not> ready NewChecker" by (simp add: NewChecker_def)
  with assms have "\<not> ready (apply_ops ops NewChecker)" by (rule apply_ops_not_ready)
  then show ?thesis
    by (simp add: IsReady_def NewChecker_def ReadinessProbe_def http_Error_NewRecorder
        StatusServiceUnavailable_def)
qed

theorem new_checker_not_ready_witness:
  "Op_SetReady True \<notin> set [Op_AddReadinessCheck ''db'' (\<lambda>_. None), Op_SetReady False]
   \<and> \<not> IsReady (apply_ops [Op_AddReadinessCheck ''db'' (\<lambda>_. None), Op_SetReady False] NewChecker)
   \<and> status (ReadinessProbe (apply_ops [Op_AddReadinessCheck ''db'' (\<lambda>_. None), Op_SetReady False] NewChecker) [''db''] NewRecorder ()) = Some 503"
  using new_checker_not_ready [of "[Op_AddReadinessCheck ''db'' (\<lambda>_. None), Op_SetReady False]" "[''db'']" "()"]
  by simp

section \<open>Properties of the instrumenting processor\<close>

lemma filter_map_Inner_event [simp]:
  "filter is_Inner_event (map Inner_event xs) = map Inner_event xs"
  "filter is_Tracer_Start (map Inner_event xs) = []"
  "filter is_Span_End (map Inner_event xs) = []"
  "filter is_Counter_Add (map Inner_event xs) = []"
  "filter is_Histogram_Record (map Inner_event xs) = []"
  "filter is_Inner_ProcessRecord (map Inner_event xs) = []"
  by (induction xs) simp_all

text \<open>
  Claim C3. One call of \<^verbatim>\<open>InstrumentingProcessor.ProcessRecord\<close>, for any wrapped
  processor, clock, context and record, calls the wrapped processor exactly once (one call,
  and its events once), starts exactly one span and ends it, adds exactly once to the
  counter and records exactly one duration, both tagged with the topic of the record and
  with success equal to "the wrapped call returned no error", and returns what the wrapped
  processor returned. This holds whether the wrapped call returns an error or not.
\<close>

theorem instrumenting_processor_once:
  "(let ctx' = Ctx (ctx_id ctx) (Some (Topic record @ '' process''));
        inner = InstrumentingProcessor.processor p ctx' record;
        (tr, res) = ProcessRecord p clk ctx record;
        tags = [(''messaging.kafka.topic'', AString (Topic record)),
                (''success'', ABool (snd inner = None))]
    in filter is_Inner_ProcessRecord tr = [Inner_ProcessRecord ctx' record]
     \<and> filter is_Inner_event tr = map Inner_event (fst inner)
     \<and> filter is_Tracer_Start tr = [Tracer_Start (tracer p) ctx (Topic record @ '' process'')]
     \<and> filter is_Span_End tr = [Span_End (Topic record @ '' process'')]
     \<and> filter is_Counter_Add tr
          = [Counter_Add (MessagesProcessedCounter (instrumentor p)) ctx' 1 tags]
     \<and> filter is_Histogram_Record tr
          = [Histogram_Record (ProcessingTimeHistogram (instrumentor p)) ctx'
               (real_of_int (Microseconds (time_Sub (at_Since clk) (at_Now clk))) / 1000) tags]
     \<and> res = snd inner)"
  by (simp add: ProcessRecord_def InstrumentMessage_def tracer_Start_def Let_def
      case_prod_unfold)

section \<open>Properties of the poll loop\<close>

lemma emits_map_Emit [simp]: "emits (map Emit es @ g) = es @ emits g"
  by (induction es) simp_all

lemma done_last_Emit: "done_last (Emit e # g) \<Longrightarrow> done_last g \<and> g \<noteq> []"
  by (auto simp: done_last_def Cons_eq_append_conv Cons_eq_map_conv)

lemma done_last_Done: "done_last (wg_Done # g) \<Longrightarrow> g = []"
  by (auto simp: done_last_def Cons_eq_append_conv Cons_eq_map_conv)

lemma unfinished_simps [simp]:
  "unfinished [] = 0"
  "unfinished ([] # gs) = unfinished gs"
  "g \<noteq> [] \<Longrightarrow> unfinished (g # gs) = Suc (unfinished gs)"
  by (simp_all add: unfinished_def)

lemma unfinished_0: "unfinished gs = 0 \<Longrightarrow> concat (map emits gs) = []"
  by (induction gs) (auto simp: unfinished_def split: if_splits)

lemma run_in_order_all:
  "\<forall>g \<in> set gs. done_last g \<Longrightarrow> unfinished gs = n \<Longrightarrow>
     run_in_order n gs = Some (concat (map emits gs))"
proof (induction n gs rule: run_in_order.induct)
  case (1 gs)
  then show ?case by (simp add: unfinished_0)
next
  case (2 n)
  then show ?case by simp
next
  case (3 n gs)
  then have "run_in_order (Suc n) gs = Some (concat (map emits gs))"
    by (intro "3.IH") auto
  then show ?case by simp
next
  case (4 n e g gs)
  from "4.prems" have g: "done_last g" "g \<noteq> []"
    using done_last_Emit [of e g] by auto
  with "4.prems" have "run_in_order (Suc n) (g # gs) = Some (concat (map emits (g # gs)))"
    by (intro "4.IH") auto
  then show ?case by simp
next
  case (5 n g gs)
  from "5.prems" have g: "g = []"
    using done_last_Done [of g] by auto
  with "5.prems" have "run_in_order n (g # gs) = Some (concat (map emits (g # gs)))"
    by (intro "5.IH") (auto simp: done_last_def)
  with g show ?case by simp
qed

lemma mset_concat_update:
  "i < length gs \<Longrightarrow>
     mset (concat (map f (gs[i := g]))) + mset (f (gs ! i)) = mset (concat (map f gs)) + mset (f g)"
proof (induction gs arbitrary: i)
  case Nil
  then show ?case by simp
next
  case (Cons a gs)
  then show ?case by (cases i) (simp_all add: ac_simps)
qed

lemma unfinished_update:
  "i < length gs \<Longrightarrow> gs ! i \<noteq> [] \<Longrightarrow>
     unfinished (gs[i := g]) = (if g = [] then unfinished gs - 1 else unfinished gs)"
proof (induction gs arbitrary: i)
  case Nil
  then show ?case by simp
next
  case (Cons a gs)
  show ?case
  proof (cases i)
    case 0
    with Cons.prems show ?thesis by (simp add: unfinished_def)
  next
    case (Suc j)
    with Cons.prems have IH: "unfinished (gs[j := g]) = (if g = [] then unfinished gs - 1 else unfinished gs)"
      by (intro Cons.IH) auto
    from Suc Cons.prems have "gs ! j \<in> set gs" "gs ! j \<noteq> []"
      by auto
    then have "unfinished gs > 0"
      by (auto simp: unfinished_def filter_empty_conv)
    with IH Suc show ?thesis by (cases "a = []") (auto)
  qed
qed

lemma done_last_update:
  "\<forall>g \<in> set gs. done_last g \<Longrightarrow> done_last g' \<Longrightarrow> \<forall>g \<in> set (gs[i := g']). done_last g"
  using set_update_subset_insert [of gs i g'] by auto

lemma wg_Wait_all:
  "\<forall>g \<in> set gs. done_last g \<Longrightarrow> unfinished gs = n \<Longrightarrow>
     \<exists>tr. wg_Wait sched n gs = Some tr \<and> mset tr = mset (concat (map emits gs))"
proof (induction sched n gs rule: wg_Wait.induct)
  case (1 sched gs)
  then show ?case by (simp add: unfinished_0)
next
  case (2 n gs)
  then have "run_in_order (Suc n) gs = Some (concat (map emits gs))"
    by (intro run_in_order_all)
  then show ?case by simp
next
  case (3 i sched n gs)
  show ?case
  proof (cases "i < length gs")
    case False
    with 3 show ?thesis by simp
  next
    case True
    show ?thesis
    proof (cases "gs ! i")
      case Nil
      with True 3 show ?thesis by simp
    next
      case (Cons s g)
      from True "3.prems" have dl: "done_last (gs ! i)" by auto
      show ?thesis
      proof (cases s)
        case (Emit e)
        with Cons dl have g: "done_last g" "g \<noteq> []"
          using done_last_Emit [of e g] by auto
        have "\<exists>tr. wg_Wait sched (Suc n) (gs[i := g]) = Some tr
                \<and> mset tr = mset (concat (map emits (gs[i := g])))"
        proof (rule "3.IH"(2) [OF True Cons Emit])
          show "\<forall>g \<in> set (gs[i := g]). done_last g"
            using "3.prems"(1) g(1) by (rule done_last_update)
          show "unfinished (gs[i := g]) = Suc n"
            using "3.prems"(2) True Cons g(2) by (simp add: unfinished_update)
        qed
        then obtain tr where tr: "wg_Wait sched (Suc n) (gs[i := g]) = Some tr"
          "mset tr = mset (concat (map emits (gs[i := g])))" by blast
        from mset_concat_update [OF True, of emits g] Cons Emit
        have "mset (concat (map emits (gs[i := g]))) + {#e#} = mset (concat (map emits gs))"
          by simp
        with tr True Cons Emit show ?thesis by simp
      next
        case wg_Done
        with Cons dl have g: "g = []"
          using done_last_Done [of g] by auto
        have "\<exists>tr. wg_Wait sched n (gs[i := g]) = Some tr
                \<and> mset tr = mset (concat (map emits (gs[i := g])))"
        proof (rule "3.IH"(3) [OF True Cons wg_Done])
          show "\<forall>g \<in> set (gs[i := g]). done_last g"
            using "3.prems"(1) g by (intro done_last_update) (auto simp: done_last_def)
          show "unfinished (gs[i := g]) = n"
            using "3.prems"(2) True Cons g by (simp add: unfinished_update)
        qed
        then obtain tr where tr: "wg_Wait sched n (gs[i := g]) = Some tr"
          "mset tr = mset (concat (map emits (gs[i := g])))" by blast
        from mset_concat_update [OF True, of emits g] Cons wg_Done g
        have "mset (concat (map emits (gs[i := g]))) = mset (concat (map emits gs))"
          by simp
        with tr True Cons wg_Done show ?thesis by simp
      qed
    qed
  qed
qed


lemma emits_map_Emit_f [simp]: "emits (map (\<lambda>e. Emit (f e)) xs @ g) = map f xs @ emits g"
  by (induction xs) simp_all

lemma record_events_eq:
  "record_events c rec =
     ProcessRecord_call (Context rec) rec
     # map Processor_event (fst (Consumer.processor c (Context rec) rec))
     @ [ProcessRecord_return rec (snd (Consumer.processor c (Context rec) rec))]
     @ (case snd (Consumer.processor c (Context rec) rec) of
          Some e \<Rightarrow>
            [Logger (Log ErrorLevel ''Failed to process record''
               [(''error'', ErrorV e), (''topic'', StringV (Topic rec)),
                (''partition'', Int32V (Partition rec)), (''offset'', Int64V (Offset rec))])]
        | None \<Rightarrow> [])"
  by (simp add: record_events_def record_goroutine_def case_prod_unfold split: option.split)

lemma record_goroutine_eq:
  "record_goroutine c rec = map Emit (record_events c rec) @ [wg_Done]"
  by (simp add: record_events_eq)
     (simp add: record_goroutine_def case_prod_unfold split: option.split)

lemma record_goroutine_done_last: "done_last (record_goroutine c rec)"
  unfolding done_last_def using record_goroutine_eq by blast

lemma record_goroutine_not_Nil: "record_goroutine c rec \<noteq> []"
  by (simp add: record_goroutine_eq)

lemma fold_EachRecord_callback:
  "fold (EachRecord_callback c) recs (n, gs)
     = (n + length recs, gs @ map (record_goroutine c) recs)"
  by (induction recs arbitrary: n gs) (simp_all add: EachRecord_callback_def)

lemma unfinished_goroutines:
  "unfinished (map (record_goroutine c) recs) = length recs"
  by (induction recs) (simp_all add: record_goroutine_not_Nil)

lemma wg_Wait_goroutines:
  "\<exists>batch. wg_Wait sched (length recs) (map (record_goroutine c) recs) = Some batch
     \<and> mset batch = mset (concat (map (record_events c) recs))"
proof -
  have "\<forall>g \<in> set (map (record_goroutine c) recs). done_last g"
    by (auto simp: record_goroutine_done_last)
  moreover have "(\<lambda>r. emits (record_goroutine c r)) = record_events c"
    by (simp add: record_events_def fun_eq_iff)
  ultimately show ?thesis
    using wg_Wait_all [OF _ unfinished_goroutines, of c recs sched] by (simp add: comp_def)
qed

lemma loop_body_errors:
  "Errors (fetch it) \<noteq> [] \<Longrightarrow>
     loop_body c it = Some (PollFetches # map (\<lambda>e. Logger (fetch_error_entry e)) (Errors (fetch it)))"
  by (simp add: loop_body_def Let_def)

lemma loop_body_records:
  assumes "Errors (fetch it) = []"
  shows "\<exists>batch. loop_body c it = Some (PollFetches # batch)
     \<and> mset batch = mset (concat (map (record_events c) (Records (fetch it))))"
proof -
  from wg_Wait_goroutines [of "schedule it" "Records (fetch it)" c]
  obtain batch where
    "wg_Wait (schedule it) (length (Records (fetch it))) (map (record_goroutine c) (Records (fetch it)))
       = Some batch"
    and m: "mset batch = mset (concat (map (record_events c) (Records (fetch it))))"
    by blast
  with assms have "loop_body c it = Some (PollFetches # batch)"
    by (simp add: loop_body_def Let_def EachRecord_def fold_EachRecord_callback)
  with m show ?thesis by blast
qed

lemma loop_body_returns: "\<exists>events. loop_body c it = Some (PollFetches # events)"
  using loop_body_errors [of it c] loop_body_records [of it c] by (cases "Errors (fetch it) = []") auto

lemma filter_concat_one:
  "(\<And>r. filter P (f r) = [g r]) \<Longrightarrow> filter P (concat (map f recs)) = map g recs"
  by (induction recs) simp_all

lemma filter_concat_none:
  "(\<And>r. filter P (f r) = []) \<Longrightarrow> filter P (concat (map f recs)) = []"
  by (induction recs) simp_all

lemma filter_map_Processor_event [simp]:
  "filter is_call (map Processor_event xs) = []"
  "filter is_return (map Processor_event xs) = []"
  "filter is_PollFetches (map Processor_event xs) = []"
  "filter is_Logger (map Processor_event xs) = []"
  by (induction xs) simp_all

lemma filter_record_events:
  "filter is_call (record_events c r) = [ProcessRecord_call (Context r) r]"
  "filter is_return (record_events c r)
     = [ProcessRecord_return r (snd (Consumer.processor c (Context r) r))]"
  "filter is_PollFetches (record_events c r) = []"
  by (simp_all add: record_events_eq split: option.split)

lemma mset_filter_eq: "mset xs = mset ys \<Longrightarrow> mset (filter P xs) = mset (filter P ys)"
  by (metis mset_filter)

lemma batch_calls:
  assumes "mset batch = mset (concat (map (record_events c) recs))"
  shows "mset (filter is_call batch) = mset (map (\<lambda>r. ProcessRecord_call (Context r) r) recs)"
    and "mset (filter is_return batch)
           = mset (map (\<lambda>r. ProcessRecord_return r (snd (Consumer.processor c (Context r) r))) recs)"
    and "filter is_PollFetches batch = []"
proof -
  show "mset (filter is_call batch) = mset (map (\<lambda>r. ProcessRecord_call (Context r) r) recs)"
    using mset_filter_eq [OF assms, of is_call]
    by (simp add: filter_concat_one [of is_call "record_events c", OF filter_record_events(1)])
  show "mset (filter is_return batch)
           = mset (map (\<lambda>r. ProcessRecord_return r (snd (Consumer.processor c (Context r) r))) recs)"
    using mset_filter_eq [OF assms, of is_return]
    by (simp add: filter_concat_one [of is_return "record_events c", OF filter_record_events(2)])
  have "mset (filter is_PollFetches batch) = {#}"
    using mset_filter_eq [OF assms, of is_PollFetches]
    by (simp add: filter_concat_none [of is_PollFetches "record_events c", OF filter_record_events(3)])
  then show "filter is_PollFetches batch = []" by simp
qed

text \<open>
  Claim C4. In an iteration whose polled batch carries at least one fetch error, the
  events of the iteration are the poll and one error entry of the logger per fetch error,
  in order: the processor is not called and no event of it occurs, whatever records the
  batch carries besides. The loop then goes on with the next iteration.
\<close>

theorem fetch_errors_skip_dispatch:
  assumes "ctx_Err it = None" and "Errors (fetch it) \<noteq> []"
  shows "(let events = PollFetches # map (\<lambda>e. Logger (fetch_error_entry e)) (Errors (fetch it))
          in loop_body c it = Some events
           \<and> filter is_call events = []
           \<and> filter is_return events = []
           \<and> filter is_Processor_event events = []
           \<and> filter is_Logger events
                = map (\<lambda>e. Logger (fetch_error_entry e)) (Errors (fetch it))
           \<and> Run c (it # env) = map_option ((@) events) (Run c env))"
proof -
  have f: "filter is_call (map (\<lambda>e. Logger (fetch_error_entry e)) es) = []"
    "filter is_return (map (\<lambda>e. Logger (fetch_error_entry e)) es) = []"
    "filter is_Processor_event (map (\<lambda>e. Logger (fetch_error_entry e)) es) = []"
    "filter is_Logger (map (\<lambda>e. Logger (fetch_error_entry e)) es)
       = map (\<lambda>e. Logger (fetch_error_entry e)) es" for es :: "FetchError list"
    by (induction es) simp_all
  from assms show ?thesis
    by (simp add: loop_body_errors f Let_def)
qed

text \<open>
  Claim C5. In an iteration whose polled batch carries no fetch error and N records,
  whatever the schedule of the goroutines and whatever the processor returns, the
  processor is called exactly N times, once for each record with the context of that
  record, all N calls return, and all of this happens after the poll of the iteration and
  before anything of the following iterations: the batch holds no poll.
\<close>

theorem records_dispatched_once_each:
  assumes "ctx_Err it = None" and "Errors (fetch it) = []"
  shows "\<exists>batch.
       Run c (it # env) = map_option ((@) (PollFetches # batch)) (Run c env)
     \<and> mset (filter is_call batch)
          = mset (map (\<lambda>r. ProcessRecord_call (Context r) r) (Records (fetch it)))
     \<and> length (filter is_call batch) = length (Records (fetch it))
     \<and> mset (filter is_return batch)
          = mset (map (\<lambda>r. ProcessRecord_return r (snd (Consumer.processor c (Context r) r)))
                   (Records (fetch it)))
     \<and> length (filter is_return batch) = length (Records (fetch it))
     \<and> filter is_PollFetches batch = []"
proof -
  from loop_body_records [OF assms(2), of c] obtain batch where
    lb: "loop_body c it = Some (PollFetches # batch)"
    and m: "mset batch = mset (concat (map (record_events c) (Records (fetch it))))"
    by blast
  note b = batch_calls [OF m]
  from mset_eq_length [OF b(1)]
  have l1: "length (filter is_call batch) = length (Records (fetch it))"
    by simp
  from mset_eq_length [OF b(2)]
  have l2: "length (filter is_return batch) = length (Records (fetch it))"
    by simp
  from assms(1) lb have "Run c (it # env) = map_option ((@) (PollFetches # batch)) (Run c env)"
    by simp
  with b l1 l2 show ?thesis by blast
qed

lemma Run_returns_iff: "Run c env \<noteq> None \<longleftrightarrow> (\<exists>it \<in> set env. ctx_Err it \<noteq> None)"
proof (induction env)
  case Nil
  then show ?case by simp
next
  case (Cons it env)
  from loop_body_returns [of c it] obtain events where "loop_body c it = Some (PollFetches # events)"
    by blast
  with Cons show ?case by auto
qed

lemma Run_polls:
  "Run c env = Some tr \<Longrightarrow>
     length (filter is_PollFetches tr) = length (takeWhile (\<lambda>it. ctx_Err it = None) env)
     \<and> (\<exists>tr'. tr = tr' @ [Logger (Log InfoLevel ''Context cancelled, stopping consumer poll loop.'' [])])"
proof (induction env arbitrary: tr)
  case Nil
  then show ?case by simp
next
  case (Cons it env)
  show ?case
  proof (cases "ctx_Err it = None")
    case False
    with Cons.prems show ?thesis by auto
  next
    case True
    show ?thesis
    proof (cases "Errors (fetch it) = []")
      case False
      with True Cons.prems obtain tr0 where tr0: "Run c env = Some tr0"
        and tr: "tr = PollFetches # map (\<lambda>e. Logger (fetch_error_entry e)) (Errors (fetch it)) @ tr0"
        by (auto simp: loop_body_errors)
      have "filter is_PollFetches (map (\<lambda>e. Logger (fetch_error_entry e)) es) = []"
        for es :: "FetchError list"
        by (induction es) simp_all
      with Cons.IH [OF tr0] tr True show ?thesis by auto
    next
      case noerr: True
      from loop_body_records [OF noerr, of c] obtain batch where
        lb: "loop_body c it = Some (PollFetches # batch)"
        and m: "mset batch = mset (concat (map (record_events c) (Records (fetch it))))"
        by blast
      from True lb Cons.prems obtain tr0 where tr0: "Run c env = Some tr0"
        and tr: "tr = PollFetches # batch @ tr0"
        by auto
      from batch_calls(3) [OF m] Cons.IH [OF tr0] tr True show ?thesis by auto
    qed
  qed
qed

text \<open>
  Claim C7. An iteration that finds the context cancelled logs and returns without
  polling. An iteration whose poll reports errors logs them, and the loop goes on with
  the next iteration. \<^verbatim>\<open>Run\<close> returns exactly when some iteration finds the context
  cancelled; when it returns, it has polled once in each iteration before that one, and
  not after, and the last event is the entry that says so. The context is read only at
  the start of an iteration: when it is cancelled after that, the whole batch is still
  dispatched, and the loop returns at the next start without another poll.
\<close>

theorem loop_stops_only_on_cancellation:
  "(ctx_Err it \<noteq> None \<longrightarrow>
      Run c (it # env)
        = Some [Logger (Log InfoLevel ''Context cancelled, stopping consumer poll loop.'' [])])
   \<and> (ctx_Err it = None \<and> Errors (fetch it) \<noteq> [] \<longrightarrow>
      Run c (it # env)
        = map_option
            ((@) (PollFetches # map (\<lambda>e. Logger (fetch_error_entry e)) (Errors (fetch it))))
            (Run c env))
   \<and> (Run c env \<noteq> None \<longleftrightarrow> (\<exists>it \<in> set env. ctx_Err it \<noteq> None))
   \<and> (\<forall>tr. Run c env = Some tr \<longrightarrow>
        length (filter is_PollFetches tr) = length (takeWhile (\<lambda>it. ctx_Err it = None) env)
        \<and> (\<exists>tr'. tr = tr' @ [Logger (Log InfoLevel ''Context cancelled, stopping consumer poll loop.'' [])]))
   \<and> (ctx_Err it = None \<and> Errors (fetch it) = [] \<and> ctx_Err it' \<noteq> None \<longrightarrow>
        (\<exists>batch. Run c (it # it' # env)
             = Some (PollFetches # batch
                     @ [Logger (Log InfoLevel ''Context cancelled, stopping consumer poll loop.'' [])])
           \<and> length (filter is_call batch) = length (Records (fetch it))
           \<and> length (filter is_return batch) = length (Records (fetch it))))"
proof (intro conjI impI allI)
  assume "ctx_Err it \<noteq> None"
  then show "Run c (it # env)
        = Some [Logger (Log InfoLevel ''Context cancelled, stopping consumer poll loop.'' [])]"
    by simp
next
  assume "ctx_Err it = None \<and> Errors (fetch it) \<noteq> []"
  then show "Run c (it # env)
        = map_option
            ((@) (PollFetches # map (\<lambda>e. Logger (fetch_error_entry e)) (Errors (fetch it))))
            (Run c env)"
    by (simp add: loop_body_errors)
next
  show "Run c env \<noteq> None \<longleftrightarrow> (\<exists>it \<in> set env. ctx_Err it \<noteq> None)"
    by (rule Run_returns_iff)
next
  fix tr assume "Run c env = Some tr"
  from Run_polls [OF this]
  show "length (filter is_PollFetches tr) = length (takeWhile (\<lambda>it. ctx_Err it = None) env)"
    and "\<exists>tr'. tr = tr' @ [Logger (Log InfoLevel ''Context cancelled, stopping consumer poll loop.'' [])]"
    by blast+
next
  assume a: "ctx_Err it = None \<and> Errors (fetch it) = [] \<and> ctx_Err it' \<noteq> None"
  then have noerr: "Errors (fetch it) = []" by simp
  from loop_body_records [OF noerr, of c] obtain batch where
    lb: "loop_body c it = Some (PollFetches # batch)"
    and m: "mset batch = mset (concat (map (record_events c) (Records (fetch it))))"
    by blast
  note b = batch_calls [OF m]
  from mset_eq_length [OF b(1)]
  have l1: "length (filter is_call batch) = length (Records (fetch it))"
    by simp
  from mset_eq_length [OF b(2)]
  have l2: "length (filter is_return batch) = length (Records (fetch it))"
    by simp
  from a lb have "Run c (it # it' # env)
             = Some (PollFetches # batch
                     @ [Logger (Log InfoLevel ''Context cancelled, stopping consumer poll loop.'' [])])"
    by simp
  with l1 l2 show "\<exists>batch. Run c (it # it' # env)
             = Some (PollFetches # batch
                     @ [Logger (Log InfoLevel ''Context cancelled, stopping consumer poll loop.'' [])])
           \<and> length (filter is_call batch) = length (Records (fetch it))
           \<and> length (filter is_return batch) = length (Records (fetch it))"
    by blast
qed

theorem fetch_errors_skip_dispatch_witness:
  "ctx_Err ex_iteration_errors = None \<and> Errors (fetch ex_iteration_errors) \<noteq> []
   \<and> Records (fetch ex_iteration_errors) \<noteq> []
   \<and> Run ex_consumer [ex_iteration_errors, ex_iteration_cancelled]
        = Some [PollFetches,
                Logger (Log ErrorLevel ''Kafka fetch error''
                  [(''topic'', StringV ''orders''), (''partition'', Int32V 2),
                   (''error'', ErrorV ''broker not available'')]),
                Logger (Log InfoLevel ''Context cancelled, stopping consumer poll loop.'' [])]"
  using fetch_errors_skip_dispatch [of ex_iteration_errors ex_consumer "[ex_iteration_cancelled]"]
  by (simp add: ex_iteration_errors_def ex_iteration_cancelled_def ex_fetch_error_def
      fetch_error_entry_def)

theorem records_dispatched_once_each_witness:
  "ctx_Err ex_iteration_records = None \<and> Errors (fetch ex_iteration_records) = []
   \<and> (\<exists>batch. Run ex_consumer [ex_iteration_records, ex_iteration_cancelled]
          = Some (PollFetches # batch
                  @ [Logger (Log InfoLevel ''Context cancelled, stopping consumer poll loop.'' [])])
        \<and> length (filter is_call batch) = 2
        \<and> length (filter is_return batch) = 2)"
proof -
  have h: "ctx_Err ex_iteration_records = None" "Errors (fetch ex_iteration_records) = []"
    by (simp_all add: ex_iteration_records_def)
  have r: "Run ex_consumer [ex_iteration_cancelled]
      = Some [Logger (Log InfoLevel ''Context cancelled, stopping consumer poll loop.'' [])]"
    by (simp add: ex_iteration_cancelled_def)
  have n: "length (Records (fetch ex_iteration_records)) = 2"
    by (simp add: ex_iteration_records_def)
  from records_dispatched_once_each [OF h, of ex_consumer "[ex_iteration_cancelled]"] h
  show ?thesis
    unfolding r n by auto
qed

theorem loop_stops_only_on_cancellation_witness:
  "ctx_Err ex_iteration_cancelled \<noteq> None
   \<and> Run ex_consumer [ex_iteration_cancelled, ex_iteration_errors]
        = Some [Logger (Log InfoLevel ''Context cancelled, stopping consumer poll loop.'' [])]
   \<and> ctx_Err ex_iteration_errors = None \<and> Errors (fetch ex_iteration_errors) \<noteq> []
   \<and> Run ex_consumer [ex_iteration_errors] = None
   \<and> (\<exists>it \<in> set [ex_iteration_errors, ex_iteration_cancelled]. ctx_Err it \<noteq> None)
   \<and> Run ex_consumer [ex_iteration_errors, ex_iteration_cancelled]
        = Some [PollFetches,
                Logger (Log ErrorLevel ''Kafka fetch error''
                  [(''topic'', StringV ''orders''), (''partition'', Int32V 2),
                   (''error'', ErrorV ''broker not available'')]),
                Logger (Log InfoLevel ''Context cancelled, stopping consumer poll loop.'' [])]
   \<and> length (filter is_PollFetches
        [PollFetches :: unit consumer_event,
         Logger (Log ErrorLevel ''Kafka fetch error''
           [(''topic'', StringV ''orders''), (''partition'', Int32V 2),
            (''error'', ErrorV ''broker not available'')]),
         Logger (Log InfoLevel ''Context cancelled, stopping consumer poll loop.'' [])])
       = length (takeWhile (\<lambda>it. ctx_Err it = None) [ex_iteration_errors, ex_iteration_cancelled])
   \<and> ctx_Err ex_iteration_records = None \<and> Errors (fetch ex_iteration_records) = []
   \<and> (\<exists>batch. Run ex_consumer [ex_iteration_records, ex_iteration_cancelled]
          = Some (PollFetches # batch
                  @ [Logger (Log InfoLevel ''Context cancelled, stopping consumer poll loop.'' [])])
        \<and> length (filter is_call batch) = 2)"
proof -
  have n: "length (Records (fetch ex_iteration_records)) = 2"
    by (simp add: ex_iteration_records_def)
  have h: "ctx_Err ex_iteration_cancelled \<noteq> None" "ctx_Err ex_iteration_errors = None"
    "Errors (fetch ex_iteration_errors) \<noteq> []" "ctx_Err ex_iteration_records = None"
    "Errors (fetch ex_iteration_records) = []"
    by (simp_all add: ex_iteration_records_def ex_iteration_errors_def ex_iteration_cancelled_def)
  have r: "Run ex_consumer [ex_iteration_errors, ex_iteration_cancelled]
        = Some [PollFetches,
                Logger (Log ErrorLevel ''Kafka fetch error''
                  [(''topic'', StringV ''orders''), (''partition'', Int32V 2),
                   (''error'', ErrorV ''broker not available'')]),
                Logger (Log InfoLevel ''Context cancelled, stopping consumer poll loop.'' [])]"
    by (simp add: ex_iteration_errors_def ex_iteration_cancelled_def ex_fetch_error_def
        loop_body_def fetch_error_entry_def)
  note t2 = loop_stops_only_on_cancellation
    [where it = ex_iteration_errors and c = ex_consumer
       and env = "[ex_iteration_errors, ex_iteration_cancelled]"]
  from t2 r have p: "length (filter is_PollFetches
        [PollFetches :: unit consumer_event,
         Logger (Log ErrorLevel ''Kafka fetch error''
           [(''topic'', StringV ''orders''), (''partition'', Int32V 2),
            (''error'', ErrorV ''broker not available'')]),
         Logger (Log InfoLevel ''Context cancelled, stopping consumer poll loop.'' [])])
       = length (takeWhile (\<lambda>it. ctx_Err it = None) [ex_iteration_errors, ex_iteration_cancelled])"
    by blast
  from loop_stops_only_on_cancellation
    [where it = ex_iteration_cancelled and c = ex_consumer and env = "[ex_iteration_errors]"]
    t2
    loop_stops_only_on_cancellation
    [where it = ex_iteration_records and c = ex_consumer and env = "[]"
       and it' = ex_iteration_cancelled] h r p
  show ?thesis
    unfolding n by auto
qed

section \<open>Properties of the shutdown sequence\<close>

lemma first_index_append:
  "x \<notin> set ys \<Longrightarrow> first_index x (ys @ x # zs) = Some (length ys)"
  by (induction ys) auto

lemma precedes_split:
  assumes "a \<notin> set pre" and "b \<notin> set pre" and "a \<noteq> b" and "b \<notin> set mid"
  shows "precedes a b (pre @ a # mid @ b # post)"
proof -
  have "first_index a (pre @ a # mid @ b # post) = Some (length pre)"
    using assms(1) by (rule first_index_append)
  moreover have "b \<notin> set (pre @ a # mid)"
    using assms by auto
  then have "first_index b ((pre @ a # mid) @ b # post) = Some (length (pre @ a # mid))"
    by (rule first_index_append)
  ultimately show ?thesis by (simp add: precedes_def)
qed

text \<open>The events of \<^verbatim>\<open>Start\<close> up to the close of the client, on the shutdown path.\<close>

lemma Start_shutdown_path:
  assumes "counter_err res = None" and "histogram_err res = None"
    and "tracerProvider a \<noteq> None" and "signal res"
  shows "\<exists>pre post. fst (Start a res fns)
            = pre @ KafkaClient_Close
              # (map cleanupFn fns @ [Zap (Log InfoLevel ''Cleanup tasks completed.'' [])])
              @ wg_Wait_call # post
          \<and> KafkaClient_Close \<notin> set pre \<and> wg_Wait_call \<notin> set pre
          \<and> Server_Shutdown \<in> set pre
          \<and> KafkaClient_Close \<notin> set post \<and> wg_Wait_call \<notin> set post"
proof -
  let ?pre = "signal_NotifyContext # startHealthCheckServer a
      @ [Zap (Log DebugLevel ''Kafka consumer started...'' []), go_Consumer_Run,
         ctx_Done,
         Zap (Log InfoLevel ''Termination signal received, initiating graceful shutdown...'' [])]
      @ shutdownHTTPServer res @ shutdownOtelProviders a res :: 'a app_event list"
  let ?post = "(if goroutines_return res
      then [Zap (Log DebugLevel ''All services shut down gracefully.'' []), stop] else [])
      :: 'a app_event list"
  have "fst (Start a res fns)
            = ?pre @ KafkaClient_Close
              # (map cleanupFn fns @ [Zap (Log InfoLevel ''Cleanup tasks completed.'' [])])
              @ wg_Wait_call # ?post"
    using assms by (auto simp: Start_def startConsumer_def NewInstrumentor_def Let_def)
  moreover have "KafkaClient_Close \<notin> set ?pre" "wg_Wait_call \<notin> set ?pre" "Server_Shutdown \<in> set ?pre"
    by (auto simp: startHealthCheckServer_def shutdownHTTPServer_def shutdownOtelProviders_def
        split: option.splits)
  moreover have "KafkaClient_Close \<notin> set ?post" "wg_Wait_call \<notin> set ?post"
    by auto
  ultimately show ?thesis by blast
qed

text \<open>
  When the instrumentor is built and the tracer provider is nil, \<^verbatim>\<open>Start\<close> panics in
  \<^verbatim>\<open>startConsumer\<close>: the consumer is not started, and there is neither a close nor a
  join.
\<close>

lemma Start_nil_provider:
  assumes "counter_err res = None" and "histogram_err res = None" and "tracerProvider a = None"
  shows "snd (Start a res fns) = Panicked"
    and "go_Consumer_Run \<notin> set (fst (Start a res fns))"
    and "KafkaClient_Close \<notin> set (fst (Start a res fns))"
    and "wg_Wait_call \<notin> set (fst (Start a res fns))"
  using assms
  by (simp_all add: Start_def startConsumer_def NewInstrumentor_def Let_def
      startHealthCheckServer_def)

text \<open>
  Claim C1, as amended. On the shutdown path of \<^verbatim>\<open>Start\<close> (the consumer was
  started, which needs the instrumentor and a tracer provider that is not nil, and a
  termination signal arrived), the client is closed before the wait group is joined:
  \<^verbatim>\<open>KafkaClient.Close()\<close> is called once, after the shutdown of the probe server, and
  \<^verbatim>\<open>wg.Wait()\<close> is called once, after the close.
\<close>

theorem close_before_join:
  assumes "counter_err res = None" and "histogram_err res = None"
    and "tracerProvider a \<noteq> None" and "signal res"
  shows "precedes KafkaClient_Close wg_Wait_call (fst (Start a res fns))
     \<and> count_list (fst (Start a res fns)) KafkaClient_Close = 1
     \<and> count_list (fst (Start a res fns)) wg_Wait_call = 1
     \<and> precedes Server_Shutdown KafkaClient_Close (fst (Start a res fns))"
proof -
  from Start_shutdown_path [OF assms, of fns] obtain pre post where
    tr: "fst (Start a res fns)
            = pre @ KafkaClient_Close
              # (map cleanupFn fns @ [Zap (Log InfoLevel ''Cleanup tasks completed.'' [])])
              @ wg_Wait_call # post"
    and pre: "KafkaClient_Close \<notin> set pre" "wg_Wait_call \<notin> set pre" "Server_Shutdown \<in> set pre"
    and post: "KafkaClient_Close \<notin> set post" "wg_Wait_call \<notin> set post"
    by blast
  have mid: "wg_Wait_call \<notin> set (map cleanupFn fns @ [Zap (Log InfoLevel ''Cleanup tasks completed.'' [])])"
    "KafkaClient_Close \<notin> set (map cleanupFn fns @ [Zap (Log InfoLevel ''Cleanup tasks completed.'' [])])"
    by auto
  have p1: "precedes KafkaClient_Close wg_Wait_call (fst (Start a res fns))"
    unfolding tr using pre(1,2) _ mid(1) by (rule precedes_split) simp
  have c1: "count_list (fst (Start a res fns)) KafkaClient_Close = 1"
    unfolding tr using pre(1) post(1) mid(2) by (simp add: count_list_0_iff [THEN iffD2])
  have c2: "count_list (fst (Start a res fns)) wg_Wait_call = 1"
    unfolding tr using pre(2) post(2) mid(1) by (simp add: count_list_0_iff [THEN iffD2])
  from pre(3) obtain p1 p2 where p: "pre = p1 @ Server_Shutdown # p2" "Server_Shutdown \<notin> set p1"
    by (auto dest: split_list_first)
  with pre(1) have "KafkaClient_Close \<notin> set p1" "KafkaClient_Close \<notin> set p2" by auto
  then have "precedes Server_Shutdown KafkaClient_Close
      (p1 @ Server_Shutdown # p2 @ KafkaClient_Close
        # ((map cleanupFn fns @ [Zap (Log InfoLevel ''Cleanup tasks completed.'' [])])
            @ wg_Wait_call # post))"
    using p(2) by (intro precedes_split) auto
  then have p2: "precedes Server_Shutdown KafkaClient_Close (fst (Start a res fns))"
    unfolding tr p by simp
  from p1 c1 c2 p2 show ?thesis by blast
qed

theorem close_before_join_witness:
  "counter_err ex_start_results = None \<and> histogram_err ex_start_results = None
   \<and> tracerProvider ex_app \<noteq> None \<and> signal ex_start_results
   \<and> precedes KafkaClient_Close wg_Wait_call (fst (Start ex_app ex_start_results [''flush'']))
   \<and> count_list (fst (Start ex_app ex_start_results [''flush''])) KafkaClient_Close = 1
   \<and> count_list (fst (Start ex_app ex_start_results [''flush''])) wg_Wait_call = 1"
  using close_before_join [of ex_start_results ex_app "[''flush'']"]
  by (simp add: ex_start_results_def ex_app_def)

text \<open>
  The claim as first stated, that the close never comes before the join, fails in this
  run of \<^verbatim>\<open>Start\<close>: the close comes first.
\<close>

theorem close_after_join_counterexample:
  "precedes KafkaClient_Close wg_Wait_call (fst (Start ex_app ex_start_results [''flush'']))
   \<and> \<not> precedes wg_Wait_call KafkaClient_Close (fst (Start ex_app ex_start_results [''flush'']))"
  by (simp add: Start_def startConsumer_def NewInstrumentor_def Let_def ex_app_def
      ex_start_results_def startHealthCheckServer_def shutdownHTTPServer_def
      shutdownOtelProviders_def precedes_def)

section \<open>Properties of the client options\<close>

lemma createTLSConfig_key_pair:
  "certFile \<noteq> [] \<Longrightarrow> keyFile \<noteq> [] \<Longrightarrow> tls_LoadX509KeyPair lib certFile keyFile = Some err \<Longrightarrow>
     createTLSConfig lib certFile keyFile caFile = Inl (''could not load client key pair: '' @ err)"
  by (simp add: createTLSConfig_def)

lemma BuildKgoOptions_nil_provider:
  "Otel_Enabled conf \<Longrightarrow> BuildKgoOptions lib conf None = ([], Panic)"
  by (simp add: BuildKgoOptions_def)

lemma BuildKgoOptions_Panic_iff:
  "snd (BuildKgoOptions lib conf tp) = Panic \<longleftrightarrow> Otel_Enabled conf \<and> tp = None"
  by (simp add: BuildKgoOptions_def Let_def case_prod_unfold split: sum.split)

lemma BuildKgoOptions_Exit_iff:
  "snd (BuildKgoOptions lib conf tp) = Exit \<longleftrightarrow>
     (Otel_Enabled conf \<longrightarrow> tp \<noteq> None) \<and> (tls_fails lib conf \<or> sasl_unsupported lib conf)"
  by (simp add: BuildKgoOptions_def tls_fails_def sasl_unsupported_def Let_def case_prod_unfold
      split: sum.split)

lemma BuildKgoOptions_fatal_last:
  assumes "snd (BuildKgoOptions lib conf tp) = Exit"
  shows "lvl (last (fst (BuildKgoOptions lib conf tp))) = FatalLevel"
proof -
  from assms have c: "(Otel_Enabled conf \<and> tp = None) = False"
    by (auto simp: BuildKgoOptions_Exit_iff)
  from assms show ?thesis
    unfolding BuildKgoOptions_def c if_False
    by (simp add: Let_def case_prod_unfold split: sum.splits if_splits)
qed

lemma BuildKgoOptions_unknown_strategy:
  assumes "strings_ToLower lib (Kafka_RebalanceStrategy conf) \<notin> {''roundrobin'', ''range'', ''sticky''}"
  shows "(Otel_Enabled conf \<longrightarrow> tp \<noteq> None) \<Longrightarrow>
         Log WarnLevel
           (''Unknown or empty rebalance strategy '' @ [CHR 0x27] @ Kafka_RebalanceStrategy conf
              @ [CHR 0x27] @ '', using default.'') []
           \<in> set (fst (BuildKgoOptions lib conf tp))"
    and "snd (BuildKgoOptions lib conf tp) = Return opts \<Longrightarrow> filter is_Balancers opts = []"
  using assms
  by (auto simp: BuildKgoOptions_def Let_def case_prod_unfold split: sum.splits if_splits)

lemma New_Exit:
  assumes "config_New nres = Inr conf" and "logger_New nres = None"
    and "snd (InitOtelProviders (otel_res nres) conf) = Inr (tp, mp)"
    and "snd (BuildKgoOptions (stdlib nres) conf tp) = Exit"
  shows "New nres
           = (fst (InitOtelProviders (otel_res nres) conf)
                @ fst (BuildKgoOptions (stdlib nres) conf tp), Exit)"
proof -
  obtain entries where i: "InitOtelProviders (otel_res nres) conf = (entries, Inr (tp, mp))"
    using assms(3) by (cases "InitOtelProviders (otel_res nres) conf") auto
  obtain entries' where b: "BuildKgoOptions (stdlib nres) conf tp = (entries', Exit)"
    using assms(4) by (cases "BuildKgoOptions (stdlib nres) conf tp") auto
  show ?thesis
    using assms(1,2) by (simp add: New_def i b)
qed

text \<open>Inside \<^verbatim>\<open>New\<close> the tracer provider is nil only when telemetry is disabled.\<close>

lemma InitOtelProviders_provider:
  "snd (InitOtelProviders r conf) = Inr (tp, mp) \<Longrightarrow> Otel_Enabled conf \<longrightarrow> tp \<noteq> None"
  by (auto simp: InitOtelProviders_def Let_def split: if_splits option.splits)

text \<open>
  Claim C8. Where \<^verbatim>\<open>BuildKgoOptions\<close> gets past the hooks (telemetry is disabled, or
  the tracer provider is not nil), it ends the process when SASL is enabled and the
  mechanism, in upper case, is none of PLAIN, SCRAM-SHA-256 and SCRAM-SHA-512, and when TLS
  is enabled and the configured key pair does not load; its last log entry is then of
  level fatal. When it does so inside \<^verbatim>\<open>New\<close>, the program ends there: neither the
  probe server nor the consumer loop is started; and inside \<^verbatim>\<open>New\<close>, where the
  provider comes from \<^verbatim>\<open>InitOtelProviders\<close>, the two errors always end the process so.
  A rebalance strategy that, in lower case,
  is none of roundrobin, range and sticky only logs a warning: no balancer option is added,
  the options are returned when nothing else fails, and the value of the strategy never
  decides whether the process ends.
\<close>

theorem initialization_errors_fatal:
  "((Otel_Enabled conf \<longrightarrow> tp \<noteq> None)
      \<and> Kafka_SASL_Enabled conf
      \<and> strings_ToUpper lib (Kafka_SASL_Mechanism conf)
           \<notin> {''PLAIN'', ''SCRAM-SHA-256'', ''SCRAM-SHA-512''}
      \<longrightarrow> snd (BuildKgoOptions lib conf tp) = Exit)
   \<and> ((Otel_Enabled conf \<longrightarrow> tp \<noteq> None)
      \<and> Kafka_TLS_Enabled conf \<and> Kafka_TLS_CertFile conf \<noteq> [] \<and> Kafka_TLS_KeyFile conf \<noteq> []
      \<and> tls_LoadX509KeyPair lib (Kafka_TLS_CertFile conf) (Kafka_TLS_KeyFile conf) \<noteq> None
      \<longrightarrow> snd (BuildKgoOptions lib conf tp) = Exit)
   \<and> (snd (BuildKgoOptions lib conf tp) = Exit
      \<longrightarrow> lvl (last (fst (BuildKgoOptions lib conf tp))) = FatalLevel)
   \<and> (config_New nres = Inr conf \<and> logger_New nres = None
      \<and> snd (InitOtelProviders (otel_res nres) conf) = Inr (tp, mp)
      \<and> snd (BuildKgoOptions (stdlib nres) conf tp) = Exit
      \<longrightarrow> snd (New nres) = Exit \<and> snd (run nres sres) = Exited
         \<and> go_Consumer_Run \<notin> set (fst (run nres sres))
         \<and> (\<forall>addr. go_ListenAndServe addr \<notin> set (fst (run nres sres))))
   \<and> ((Otel_Enabled conf \<longrightarrow> tp \<noteq> None)
      \<and> strings_ToLower lib (Kafka_RebalanceStrategy conf) \<notin> {''roundrobin'', ''range'', ''sticky''}
      \<longrightarrow> Log WarnLevel
            (''Unknown or empty rebalance strategy '' @ [CHR 0x27] @ Kafka_RebalanceStrategy conf
               @ [CHR 0x27] @ '', using default.'') []
            \<in> set (fst (BuildKgoOptions lib conf tp))
         \<and> (\<forall>opts. snd (BuildKgoOptions lib conf tp) = Return opts
                \<longrightarrow> filter is_Balancers opts = [])
         \<and> (\<not> Kafka_TLS_Enabled conf \<and> \<not> Kafka_SASL_Enabled conf
                \<longrightarrow> (\<exists>opts. snd (BuildKgoOptions lib conf tp) = Return opts)))
   \<and> ((snd (BuildKgoOptions lib (conf\<lparr>Kafka_RebalanceStrategy := s\<rparr>) tp) = Exit)
        = (snd (BuildKgoOptions lib conf tp) = Exit))
   \<and> ((snd (BuildKgoOptions lib (conf\<lparr>Kafka_RebalanceStrategy := s\<rparr>) tp) = Panic)
        = (snd (BuildKgoOptions lib conf tp) = Panic))
   \<and> (config_New nres = Inr conf \<and> logger_New nres = None
      \<and> snd (InitOtelProviders (otel_res nres) conf) = Inr (tp, mp)
      \<and> (Kafka_SASL_Enabled conf
            \<and> strings_ToUpper (stdlib nres) (Kafka_SASL_Mechanism conf)
                 \<notin> {''PLAIN'', ''SCRAM-SHA-256'', ''SCRAM-SHA-512''}
          \<or> Kafka_TLS_Enabled conf \<and> Kafka_TLS_CertFile conf \<noteq> []
            \<and> Kafka_TLS_KeyFile conf \<noteq> []
            \<and> tls_LoadX509KeyPair (stdlib nres) (Kafka_TLS_CertFile conf)
                 (Kafka_TLS_KeyFile conf) \<noteq> None)
      \<longrightarrow> snd (New nres) = Exit \<and> snd (run nres sres) = Exited)"
proof (intro conjI impI allI)
  assume "(Otel_Enabled conf \<longrightarrow> tp \<noteq> None)
      \<and> Kafka_SASL_Enabled conf
      \<and> strings_ToUpper lib (Kafka_SASL_Mechanism conf)
           \<notin> {''PLAIN'', ''SCRAM-SHA-256'', ''SCRAM-SHA-512''}"
  then show "snd (BuildKgoOptions lib conf tp) = Exit"
    by (simp add: BuildKgoOptions_Exit_iff sasl_unsupported_def)
next
  assume "(Otel_Enabled conf \<longrightarrow> tp \<noteq> None)
      \<and> Kafka_TLS_Enabled conf \<and> Kafka_TLS_CertFile conf \<noteq> [] \<and> Kafka_TLS_KeyFile conf \<noteq> []
      \<and> tls_LoadX509KeyPair lib (Kafka_TLS_CertFile conf) (Kafka_TLS_KeyFile conf) \<noteq> None"
  then show "snd (BuildKgoOptions lib conf tp) = Exit"
    by (auto simp: BuildKgoOptions_Exit_iff tls_fails_def createTLSConfig_key_pair)
next
  assume "snd (BuildKgoOptions lib conf tp) = Exit"
  then show "lvl (last (fst (BuildKgoOptions lib conf tp))) = FatalLevel"
    by (rule BuildKgoOptions_fatal_last)
next
  assume a: "config_New nres = Inr conf \<and> logger_New nres = None
      \<and> snd (InitOtelProviders (otel_res nres) conf) = Inr (tp, mp)
      \<and> snd (BuildKgoOptions (stdlib nres) conf tp) = Exit"
  then have n: "New nres
           = (fst (InitOtelProviders (otel_res nres) conf)
                @ fst (BuildKgoOptions (stdlib nres) conf tp), Exit)"
    by (intro New_Exit) auto
  then show "snd (New nres) = Exit" by simp
  from n show "snd (run nres sres) = Exited" by (simp add: run_def)
  from n show "go_Consumer_Run \<notin> set (fst (run nres sres))" by (auto simp: run_def)
  from n show "go_ListenAndServe addr \<notin> set (fst (run nres sres))" for addr
    by (auto simp: run_def)
next
  assume u: "(Otel_Enabled conf \<longrightarrow> tp \<noteq> None)
      \<and> strings_ToLower lib (Kafka_RebalanceStrategy conf) \<notin> {''roundrobin'', ''range'', ''sticky''}"
  then have np: "Otel_Enabled conf \<longrightarrow> tp \<noteq> None"
    and us: "strings_ToLower lib (Kafka_RebalanceStrategy conf) \<notin> {''roundrobin'', ''range'', ''sticky''}"
    by blast+
  from BuildKgoOptions_unknown_strategy(1) [OF us np]
  show "Log WarnLevel
            (''Unknown or empty rebalance strategy '' @ [CHR 0x27] @ Kafka_RebalanceStrategy conf
               @ [CHR 0x27] @ '', using default.'') []
            \<in> set (fst (BuildKgoOptions lib conf tp))" .
  show "filter is_Balancers opts = []" if "snd (BuildKgoOptions lib conf tp) = Return opts" for opts
    using BuildKgoOptions_unknown_strategy(2) [OF us that] .
  show "\<exists>opts. snd (BuildKgoOptions lib conf tp) = Return opts"
    if "\<not> Kafka_TLS_Enabled conf \<and> \<not> Kafka_SASL_Enabled conf"
  proof -
    from that have "snd (BuildKgoOptions lib conf tp) \<noteq> Exit"
      by (simp add: BuildKgoOptions_Exit_iff tls_fails_def sasl_unsupported_def)
    moreover from np have "snd (BuildKgoOptions lib conf tp) \<noteq> Panic"
      by (simp add: BuildKgoOptions_Panic_iff)
    ultimately show ?thesis by (cases "snd (BuildKgoOptions lib conf tp)") auto
  qed
next
  show "(snd (BuildKgoOptions lib (conf\<lparr>Kafka_RebalanceStrategy := s\<rparr>) tp) = Exit)
        = (snd (BuildKgoOptions lib conf tp) = Exit)"
    by (simp add: BuildKgoOptions_Exit_iff tls_fails_def sasl_unsupported_def)
next
  show "(snd (BuildKgoOptions lib (conf\<lparr>Kafka_RebalanceStrategy := s\<rparr>) tp) = Panic)
        = (snd (BuildKgoOptions lib conf tp) = Panic)"
    by (simp add: BuildKgoOptions_Panic_iff)
next
  assume a: "config_New nres = Inr conf \<and> logger_New nres = None
      \<and> snd (InitOtelProviders (otel_res nres) conf) = Inr (tp, mp)
      \<and> (Kafka_SASL_Enabled conf
            \<and> strings_ToUpper (stdlib nres) (Kafka_SASL_Mechanism conf)
                 \<notin> {''PLAIN'', ''SCRAM-SHA-256'', ''SCRAM-SHA-512''}
          \<or> Kafka_TLS_Enabled conf \<and> Kafka_TLS_CertFile conf \<noteq> []
            \<and> Kafka_TLS_KeyFile conf \<noteq> []
            \<and> tls_LoadX509KeyPair (stdlib nres) (Kafka_TLS_CertFile conf)
                 (Kafka_TLS_KeyFile conf) \<noteq> None)"
  then have np: "Otel_Enabled conf \<longrightarrow> tp \<noteq> None"
    using InitOtelProviders_provider [of "otel_res nres" conf tp mp] by blast
  from a have "tls_fails (stdlib nres) conf \<or> sasl_unsupported (stdlib nres) conf"
    by (auto simp: tls_fails_def sasl_unsupported_def createTLSConfig_key_pair)
  with np have e: "snd (BuildKgoOptions (stdlib nres) conf tp) = Exit"
    by (simp add: BuildKgoOptions_Exit_iff)
  with a have n: "New nres
           = (fst (InitOtelProviders (otel_res nres) conf)
                @ fst (BuildKgoOptions (stdlib nres) conf tp), Exit)"
    by (intro New_Exit) auto
  then show "snd (New nres) = Exit" by simp
  from n show "snd (run nres sres) = Exited" by (simp add: run_def)
qed

theorem initialization_errors_fatal_witness:
  "Otel_Enabled ex_config_sasl \<and> Kafka_SASL_Enabled ex_config_sasl
   \<and> strings_ToUpper ex_library (Kafka_SASL_Mechanism ex_config_sasl)
        \<notin> {''PLAIN'', ''SCRAM-SHA-256'', ''SCRAM-SHA-512''}
   \<and> snd (BuildKgoOptions ex_library ex_config_sasl (Some (TracerProvider ''localhost:4317'')))
        = Exit
   \<and> Otel_Enabled ex_config_tls
   \<and> Kafka_TLS_Enabled ex_config_tls \<and> Kafka_TLS_CertFile ex_config_tls \<noteq> []
   \<and> Kafka_TLS_KeyFile ex_config_tls \<noteq> []
   \<and> tls_LoadX509KeyPair ex_library (Kafka_TLS_CertFile ex_config_tls)
        (Kafka_TLS_KeyFile ex_config_tls) \<noteq> None
   \<and> snd (BuildKgoOptions ex_library ex_config_tls (Some (TracerProvider ''localhost:4317'')))
        = Exit
   \<and> lvl (last (fst (BuildKgoOptions ex_library ex_config_tls
                        (Some (TracerProvider ''localhost:4317''))))) = FatalLevel
   \<and> config_New (ex_new_results ex_config_sasl) = Inr ex_config_sasl
   \<and> logger_New (ex_new_results ex_config_sasl) = None
   \<and> snd (InitOtelProviders (otel_res (ex_new_results ex_config_sasl)) ex_config_sasl)
        = Inr (Some (TracerProvider ''localhost:4317''), Some (MeterProvider ''localhost:4317''))
   \<and> snd (BuildKgoOptions (stdlib (ex_new_results ex_config_sasl)) ex_config_sasl
             (Some (TracerProvider ''localhost:4317''))) = Exit
   \<and> snd (run (ex_new_results ex_config_sasl) ex_start_results :: unit app_event list \<times> outcome)
        = Exited
   \<and> Kafka_TLS_Enabled ex_config_tls
   \<and> tls_LoadX509KeyPair (stdlib (ex_new_results ex_config_tls)) (Kafka_TLS_CertFile ex_config_tls)
        (Kafka_TLS_KeyFile ex_config_tls) \<noteq> None
   \<and> snd (New (ex_new_results ex_config_tls)) = Exit
   \<and> Otel_Enabled ex_config
   \<and> strings_ToLower ex_library (Kafka_RebalanceStrategy ex_config)
        \<notin> {''roundrobin'', ''range'', ''sticky''}
   \<and> \<not> Kafka_TLS_Enabled ex_config \<and> \<not> Kafka_SASL_Enabled ex_config
   \<and> (\<exists>opts. snd (BuildKgoOptions ex_library ex_config (Some (TracerProvider ''localhost:4317'')))
               = Return opts)"
proof -
  have otel: "Otel_Enabled ex_config_sasl" "Otel_Enabled ex_config_tls" "Otel_Enabled ex_config"
    by (simp_all add: ex_config_sasl_def ex_config_tls_def ex_config_def)
  have sasl: "Kafka_SASL_Enabled ex_config_sasl"
    "strings_ToUpper ex_library (Kafka_SASL_Mechanism ex_config_sasl)
        \<notin> {''PLAIN'', ''SCRAM-SHA-256'', ''SCRAM-SHA-512''}"
    by (simp_all add: ex_config_sasl_def ex_config_def ex_library_def ascii_ToUpper_def)
  have tls: "Kafka_TLS_Enabled ex_config_tls" "Kafka_TLS_CertFile ex_config_tls \<noteq> []"
    "Kafka_TLS_KeyFile ex_config_tls \<noteq> []"
    "tls_LoadX509KeyPair ex_library (Kafka_TLS_CertFile ex_config_tls)
        (Kafka_TLS_KeyFile ex_config_tls) \<noteq> None"
    by (simp_all add: ex_config_tls_def ex_config_def ex_library_def)
  have new: "config_New (ex_new_results ex_config_sasl) = Inr ex_config_sasl"
    "logger_New (ex_new_results ex_config_sasl) = None"
    "stdlib (ex_new_results ex_config_sasl) = ex_library"
    "snd (InitOtelProviders (otel_res (ex_new_results ex_config_sasl)) ex_config_sasl)
        = Inr (Some (TracerProvider ''localhost:4317''), Some (MeterProvider ''localhost:4317''))"
    by (simp_all add: ex_new_results_def InitOtelProviders_def ex_config_sasl_def ex_config_def)
  have strategy: "strings_ToLower ex_library (Kafka_RebalanceStrategy ex_config)
        \<notin> {''roundrobin'', ''range'', ''sticky''}"
    "\<not> Kafka_TLS_Enabled ex_config" "\<not> Kafka_SASL_Enabled ex_config"
    by (simp_all add: ex_config_def ex_library_def ascii_ToLower_def)
  note t1 = initialization_errors_fatal
    [where conf = ex_config_sasl and lib = ex_library
       and tp = "Some (TracerProvider ''localhost:4317'')"
       and mp = "Some (MeterProvider ''localhost:4317'')"
       and nres = "ex_new_results ex_config_sasl" and sres = ex_start_results]
  note t2 = initialization_errors_fatal
    [where conf = ex_config_tls and lib = ex_library
       and tp = "Some (TracerProvider ''localhost:4317'')"]
  note t4 = initialization_errors_fatal
    [where conf = ex_config and lib = ex_library
       and tp = "Some (TracerProvider ''localhost:4317'')"]
  from t1 sasl
  have e1: "snd (BuildKgoOptions ex_library ex_config_sasl
                   (Some (TracerProvider ''localhost:4317''))) = Exit"
    by blast
  from t2 tls
  have e2: "snd (BuildKgoOptions ex_library ex_config_tls
                   (Some (TracerProvider ''localhost:4317''))) = Exit"
    by blast
  with t2
  have e2': "lvl (last (fst (BuildKgoOptions ex_library ex_config_tls
                        (Some (TracerProvider ''localhost:4317''))))) = FatalLevel"
    by blast
  from e1 have e3: "snd (BuildKgoOptions (stdlib (ex_new_results ex_config_sasl)) ex_config_sasl
             (Some (TracerProvider ''localhost:4317''))) = Exit"
    by (simp add: new(3))
  from t1 [THEN conjunct2, THEN conjunct2, THEN conjunct2, THEN conjunct1] new(1,2,4) e3
  have e4:
    "snd (run (ex_new_results ex_config_sasl) ex_start_results :: unit app_event list \<times> outcome)
        = Exited"
    by blast
  have new_tls: "config_New (ex_new_results ex_config_tls) = Inr ex_config_tls"
    "logger_New (ex_new_results ex_config_tls) = None"
    "stdlib (ex_new_results ex_config_tls) = ex_library"
    "snd (InitOtelProviders (otel_res (ex_new_results ex_config_tls)) ex_config_tls)
        = Inr (Some (TracerProvider ''localhost:4317''), Some (MeterProvider ''localhost:4317''))"
    by (simp_all add: ex_new_results_def InitOtelProviders_def ex_config_tls_def ex_config_def)
  have tls': "tls_LoadX509KeyPair (stdlib (ex_new_results ex_config_tls))
        (Kafka_TLS_CertFile ex_config_tls) (Kafka_TLS_KeyFile ex_config_tls) \<noteq> None"
    using tls(4) by (simp add: new_tls(3))
  note t5 = initialization_errors_fatal
    [where conf = ex_config_tls and tp = "Some (TracerProvider ''localhost:4317'')"
       and mp = "Some (MeterProvider ''localhost:4317'')"
       and nres = "ex_new_results ex_config_tls" and sres = ex_start_results]
  from t5 [THEN conjunct2, THEN conjunct2, THEN conjunct2, THEN conjunct2, THEN conjunct2,
           THEN conjunct2, THEN conjunct2] new_tls(1,2,4) tls(1,2,3) tls'
  have e6: "snd (New (ex_new_results ex_config_tls)) = Exit"
    by blast
  from t4 strategy
  have e5: "\<exists>opts. snd (BuildKgoOptions ex_library ex_config
                           (Some (TracerProvider ''localhost:4317''))) = Return opts"
    by blast
  from otel sasl tls tls' new(1,2,4) strategy e1 e2 e2' e3 e4 e5 e6 show ?thesis by blast
qed

end
